theory Spec2Isabelle
  imports Main "HOL-Library.AList" "HOL-Library.Sublist" "HOL-Library.Stream"
begin

section \<open>Strings\<close>

text \<open>
  A JavaScript string is a sequence of UTF-16 code units, and its \<open>length\<close> is their
  number. Here a string is a \<open>string\<close>: a list of characters, each standing for the code
  unit of the same number, so the strings of the model are those of code units below
  256 (ASCII and the Latin-1 supplement). On these, \<open>toLowerCase\<close>, \<open>trim\<close> and
  \<open>includes_str\<close> are \<open>String.prototype.toLowerCase\<close>, \<open>trim\<close> and \<open>includes\<close>:
  \<^item> the letters with a lower-case form are \<open>A\<close> to \<open>Z\<close>, U+00C0 to U+00D6 and U+00D8 to
    U+00DE, and the lower-case form is 32 code units further on; every other code unit
    (among them the multiplication sign U+00D7 and the sharp s U+00DF) stays;
  \<^item> the white space and line terminators that \<open>trim\<close> removes are TAB, LF, VT, FF, CR,
    the space and the no-break space U+00A0.
\<close>

definition upperLetters :: string where
  "upperLetters = ''ABCDEFGHIJKLMNOPQRSTUVWXYZ'' @
       [CHR 0xC0, CHR 0xC1, CHR 0xC2, CHR 0xC3, CHR 0xC4, CHR 0xC5, CHR 0xC6, CHR 0xC7,
        CHR 0xC8, CHR 0xC9, CHR 0xCA, CHR 0xCB, CHR 0xCC, CHR 0xCD, CHR 0xCE, CHR 0xCF,
        CHR 0xD0, CHR 0xD1, CHR 0xD2, CHR 0xD3, CHR 0xD4, CHR 0xD5, CHR 0xD6, CHR 0xD8,
        CHR 0xD9, CHR 0xDA, CHR 0xDB, CHR 0xDC, CHR 0xDD, CHR 0xDE]"

definition lowerLetters :: string where
  "lowerLetters = ''abcdefghijklmnopqrstuvwxyz'' @
       [CHR 0xE0, CHR 0xE1, CHR 0xE2, CHR 0xE3, CHR 0xE4, CHR 0xE5, CHR 0xE6, CHR 0xE7,
        CHR 0xE8, CHR 0xE9, CHR 0xEA, CHR 0xEB, CHR 0xEC, CHR 0xED, CHR 0xEE, CHR 0xEF,
        CHR 0xF0, CHR 0xF1, CHR 0xF2, CHR 0xF3, CHR 0xF4, CHR 0xF5, CHR 0xF6, CHR 0xF8,
        CHR 0xF9, CHR 0xFA, CHR 0xFB, CHR 0xFC, CHR 0xFD, CHR 0xFE]"

definition lowerChar :: "char \<Rightarrow> char" where
  "lowerChar c = (case map_of (zip upperLetters lowerLetters) c of Some d \<Rightarrow> d | None \<Rightarrow> c)"

definition toLowerCase :: "string \<Rightarrow> string" where
  "toLowerCase s = map lowerChar s"

definition isWhiteSpace :: "char \<Rightarrow> bool" where
  "isWhiteSpace c =
     (c \<in> set [CHR 0x09, CHR 0x0A, CHR 0x0B, CHR 0x0C, CHR 0x0D, CHR 0x20, CHR 0xA0])"

definition trim :: "string \<Rightarrow> string" where
  "trim s = rev (dropWhile isWhiteSpace (rev (dropWhile isWhiteSpace s)))"

fun includes_str :: "string \<Rightarrow> string \<Rightarrow> bool" where
  "includes_str [] sub = (sub = [])"
| "includes_str (c # cs) sub = (prefix sub (c # cs) \<or> includes_str cs sub)"

section \<open>Data model\<close>

text \<open>A Firestore timestamp is a point on the server's time line.\<close>

type_synonym timestamp = int

text \<open>
  The user document of collection \<open>users\<close>, with the fields that the header of
  \<open>auth.js\<close> documents. The document id is the Firebase Auth uid.
\<close>

record profile =
  username :: string
  email :: string
  role :: string
  displayName :: string
  createdAt :: timestamp
  createdBy :: string

text \<open>What \<open>getCurrentUserData\<close> returns: \<open>{ uid: user.uid, ...userDoc.data() }\<close>.\<close>

record user_data =
  uid :: string
  data :: profile

text \<open>The \<open>user\<close> object in the result of \<open>loginWithUsername\<close> and \<open>createUser\<close>.\<close>

record session_user =
  su_uid :: string
  su_email :: string
  su_username :: string
  su_displayName :: string
  su_role :: string

text \<open>The result objects \<open>{ success: true, ... }\<close> and \<open>{ success: false, error: message }\<close>.\<close>

datatype 'a result = Success 'a | Failure string

text \<open>A JavaScript error object: its \<open>code\<close> (undefined for a plain \<open>Error\<close>) and its \<open>message\<close>.\<close>

datatype error = Error (code: "string option") (message: string)

text \<open>
  A document of a tracked collection (\<open>products\<close>, \<open>inbound\<close>, \<open>outbound\<close>): field names to
  values. Only timestamp fields are consumed by this code.
\<close>

datatype fieldval = FTimestamp timestamp | FString string | FNumber int | FBool bool | FNull

type_synonym document = "string \<rightharpoonup> fieldval"

text \<open>
  A value written to the view-state document: a timestamp read before, or the sentinel of
  \<open>serverTimestamp()\<close>, which the server replaces by its own time when it writes.
\<close>

datatype stamp = Stamp timestamp | ServerTimestamp

text \<open>The credential record that the identity provider keeps for a user.\<close>

record account =
  acc_uid :: string
  acc_email :: string
  acc_password :: string

text \<open>The calls that go over the network, as the backend sees them.\<close>

datatype call =
    GetDoc string string
  | GetDocs string
  | QueryEq string string string
  | QueryGt string string timestamp
  | SetDoc string string
  | UpdateDoc string string
  | DeleteDoc string string
  | SignIn string
  | CreateAccount string
  | Reauthenticate
  | UpdateEmail string
  | UpdatePassword

text \<open>A sidebar badge element: its text and its \<open>style.display\<close>.\<close>

datatype badge_text = CountText int | Text string

record badge =
  textContent :: badge_text
  display :: string

text \<open>The five fields of the profile form, as typed.\<close>

record profile_form =
  profileDisplayName :: string
  profileEmail :: string
  profileCurrentPassword :: string
  profileNewPassword :: string
  profileConfirmPassword :: string

text \<open>
  The state that the code reads and writes.
  \<^item> \<open>accounts\<close>, \<open>currentUser\<close>, \<open>uid_supply\<close>: the identity provider (its credential records,
    \<open>auth.currentUser\<close>, and the identifiers it will give to new accounts);
  \<^item> \<open>users\<close>, \<open>userPageViews\<close>, \<open>items\<close>: the document store (the collection \<open>users\<close> in the
    order of a collection read, the view-state documents by user id, and every other
    collection by name);
  \<^item> \<open>now\<close>: the server's time;
  \<^item> \<open>faults\<close>: what happens to the next network calls, one entry for each call in the order
    they are issued: \<open>Some e\<close> makes the call throw \<open>e\<close>, \<open>None\<close> lets it through; past the
    end of the list every call goes through;
  \<^item> \<open>trace\<close>: the network calls issued so far;
  \<^item> \<open>pathname\<close>, \<open>href\<close>: \<open>window.location.pathname\<close> and the last value assigned to
    \<open>window.location.href\<close>;
  \<^item> \<open>currentUserData\<close>: the module variable of \<open>page-auth.js\<close>;
  \<^item> \<open>badges\<close>: the badge elements of the page by element id.
\<close>

record world =
  accounts :: "account list"
  currentUser :: "string option"
  uid_supply :: "string stream"
  users :: "(string \<times> profile) list"
  userPageViews :: "string \<rightharpoonup> (string \<rightharpoonup> timestamp)"
  items :: "string \<Rightarrow> (string \<times> document) list"
  now :: timestamp
  faults :: "error option list"
  trace :: "call list"
  pathname :: string
  href :: "string option"
  currentUserData :: "user_data option"
  badges :: "string \<rightharpoonup> badge"

section \<open>Asynchronous code\<close>

text \<open>
  An \<open>async\<close> function takes the state and gives the state it leaves with either the value
  its promise is fulfilled with (\<open>Inr\<close>) or the error it is rejected with (\<open>Inl\<close>).
  \<open>await\<close> runs the rest of the function on the value, or passes the rejection on;
  \<open>try_catch\<close> is a \<open>try { ... } catch (e) { ... }\<close> block.
\<close>

type_synonym 'a prog = "world \<Rightarrow> (error + 'a) \<times> world"

definition return :: "'a \<Rightarrow> 'a prog" where
  "return x w = (Inr x, w)"

definition throw :: "error \<Rightarrow> 'a prog" where
  "throw e w = (Inl e, w)"

definition await :: "'a prog \<Rightarrow> ('a \<Rightarrow> 'b prog) \<Rightarrow> 'b prog" where
  "await m k w = (case m w of (Inl e, w') \<Rightarrow> (Inl e, w') | (Inr x, w') \<Rightarrow> k x w')"

definition try_catch :: "'a prog \<Rightarrow> (error \<Rightarrow> 'a prog) \<Rightarrow> 'a prog" where
  "try_catch m h w = (case m w of (Inl e, w') \<Rightarrow> h e w' | (Inr x, w') \<Rightarrow> (Inr x, w'))"

text \<open>
  \<open>Promise.all\<close> over three promises: all three functions are started, in the order written,
  and the result is rejected when one of them is.
\<close>

definition promise_all3 :: "'a prog \<Rightarrow> 'a prog \<Rightarrow> 'a prog \<Rightarrow> ('a \<times> 'a \<times> 'a) prog" where
  "promise_all3 a b c w =
     (case a w of (ra, wa) \<Rightarrow>
      case b wa of (rb, wb) \<Rightarrow>
      case c wb of (rc, wc) \<Rightarrow>
        (case (ra, rb, rc) of
           (Inr x, Inr y, Inr z) \<Rightarrow> (Inr (x, y, z), wc)
         | (Inl e, _, _) \<Rightarrow> (Inl e, wc)
         | (_, Inl e, _) \<Rightarrow> (Inl e, wc)
         | (_, _, Inl e) \<Rightarrow> (Inl e, wc)))"

section \<open>The backend\<close>

text \<open>The fault, if any, that the next network call meets.\<close>

definition nextFault :: "world \<Rightarrow> error option" where
  "nextFault w = (case faults w of [] \<Rightarrow> None | f # _ \<Rightarrow> f)"

text \<open>The state once the call \<open>c\<close> is issued: it is recorded and has taken its entry of \<open>faults\<close>.\<close>

definition issue :: "call \<Rightarrow> world \<Rightarrow> world" where
  "issue c w = w\<lparr>faults := tl (faults w), trace := trace w @ [c]\<rparr>"

text \<open>
  Modelled from the spec: a call to the managed identity-and-document backend (section 6,
  an opaque external collaborator; the Firebase SDK is not part of the repository). The
  call is issued, and it either throws the fault it meets, leaving the backend as it was,
  or does its work.
\<close>

definition backend :: "call \<Rightarrow> 'a prog \<Rightarrow> 'a prog" where
  "backend c work w =
     (case nextFault w of Some e \<Rightarrow> (Inl e, issue c w) | None \<Rightarrow> work (issue c w))"

text \<open>The next \<open>n\<close> network calls go through.\<close>

definition noFaults :: "nat \<Rightarrow> world \<Rightarrow> bool" where
  "noFaults n w = list_all (\<lambda>f. f = None) (take n (faults w))"

text \<open>The network calls that \<open>m\<close> issues when it runs from \<open>w\<close>.\<close>

definition callsOf :: "'a prog \<Rightarrow> world \<Rightarrow> call list" where
  "callsOf m w = drop (length (trace w)) (trace (snd (m w)))"

text \<open>
  Modelled from the spec: \<open>getDocument(collection, id) \<rightarrow> fields | none\<close>, for the
  collections \<open>users\<close> and \<open>userPageViews\<close>, and the read of the whole collection \<open>users\<close>.
\<close>

definition getDoc_users :: "string \<Rightarrow> profile option prog" where
  "getDoc_users docId = backend (GetDoc ''users'' docId) (\<lambda>w. (Inr (map_of (users w) docId), w))"

definition getDoc_userPageViews :: "string \<Rightarrow> (string \<rightharpoonup> timestamp) option prog" where
  "getDoc_userPageViews docId =
     backend (GetDoc ''userPageViews'' docId) (\<lambda>w. (Inr (userPageViews w docId), w))"

definition getDocs_users :: "(string \<times> profile) list prog" where
  "getDocs_users = backend (GetDocs ''users'') (\<lambda>w. (Inr (users w), w))"

text \<open>
  Modelled from the spec: \<open>lookupByHandle(handle) \<rightarrow> profile | none\<close>, the query
  \<open>where('username', '==', handle)\<close> on \<open>users\<close>.
\<close>

definition query_username :: "string \<Rightarrow> (string \<times> profile) list prog" where
  "query_username handle =
     backend (QueryEq ''users'' ''username'' handle)
       (\<lambda>w. (Inr (filter (\<lambda>(docId, p). username p = handle) (users w)), w))"

text \<open>
  Modelled from the spec: \<open>queryWhere(collection, field, ">", value) \<rightarrow> list of matching
  documents\<close>. A document matches when it has the field, the field holds a timestamp, and
  that timestamp is later than the value.
\<close>

definition laterThan :: "string \<Rightarrow> timestamp \<Rightarrow> document \<Rightarrow> bool" where
  "laterThan field t d = (case d field of Some (FTimestamp c) \<Rightarrow> t < c | _ \<Rightarrow> False)"

definition query_gt :: "string \<Rightarrow> string \<Rightarrow> timestamp \<Rightarrow> (string \<times> document) list prog" where
  "query_gt collectionName field t =
     backend (QueryGt collectionName field t)
       (\<lambda>w. (Inr (filter (\<lambda>(docId, d). laterThan field t d) (items w collectionName)), w))"

text \<open>
  Modelled from the spec: \<open>setDocument(collection, id, fields, merge)\<close>. On \<open>users\<close> the
  document is replaced; its \<open>createdAt\<close> is \<open>serverTimestamp()\<close>, so the document is given
  as a function of the server's time. On \<open>userPageViews\<close> the write merges: the fields
  written replace the stored ones of the same name, the other stored fields stay, and a
  missing document is created.
\<close>

definition setDoc_users :: "string \<Rightarrow> (timestamp \<Rightarrow> profile) \<Rightarrow> unit prog" where
  "setDoc_users docId mk =
     backend (SetDoc ''users'' docId)
       (\<lambda>w. (Inr (), w\<lparr>users := AList.update docId (mk (now w)) (users w)\<rparr>))"

definition resolveStamp :: "timestamp \<Rightarrow> stamp \<Rightarrow> timestamp" where
  "resolveStamp t v = (case v of Stamp s \<Rightarrow> s | ServerTimestamp \<Rightarrow> t)"

definition dataOrEmpty :: "(string \<rightharpoonup> 'v) option \<Rightarrow> (string \<rightharpoonup> 'v)" where
  "dataOrEmpty d = (case d of Some m \<Rightarrow> m | None \<Rightarrow> Map.empty)"

definition setDoc_userPageViews_merge :: "string \<Rightarrow> (string \<rightharpoonup> stamp) \<Rightarrow> unit prog" where
  "setDoc_userPageViews_merge docId written =
     backend (SetDoc ''userPageViews'' docId)
       (\<lambda>w. (Inr (), w\<lparr>userPageViews := (userPageViews w)
                (docId \<mapsto> dataOrEmpty (userPageViews w docId)
                            ++ (map_option (resolveStamp (now w)) \<circ> written))\<rparr>))"

text \<open>
  Modelled from the spec: \<open>updateDoc\<close> changes fields of an existing document of \<open>users\<close> and
  throws when there is none; \<open>deleteDoc\<close> removes the document.
\<close>

definition updateDoc_users :: "string \<Rightarrow> (profile \<Rightarrow> profile) \<Rightarrow> unit prog" where
  "updateDoc_users docId change =
     backend (UpdateDoc ''users'' docId)
       (\<lambda>w. case map_of (users w) docId of
               None \<Rightarrow> (Inl (Error (Some ''not-found'') ''No document to update''), w)
             | Some p \<Rightarrow> (Inr (), w\<lparr>users := AList.update docId (change p) (users w)\<rparr>))"

definition deleteDoc_users :: "string \<Rightarrow> unit prog" where
  "deleteDoc_users docId =
     backend (DeleteDoc ''users'' docId) (\<lambda>w. (Inr (), w\<lparr>users := AList.delete docId (users w)\<rparr>))"

text \<open>
  Modelled from the spec: \<open>authenticate(email, secret) \<rightarrow> session | AuthError\<close> and the other
  operations of the identity provider. Signing in and creating an account make the account
  the current user.
\<close>

definition signInWithEmailAndPassword :: "string \<Rightarrow> string \<Rightarrow> string prog" where
  "signInWithEmailAndPassword e p =
     backend (SignIn e)
       (\<lambda>w. case find (\<lambda>a. acc_email a = e \<and> acc_password a = p) (accounts w) of
               None \<Rightarrow> (Inl (Error (Some ''auth/invalid-credential'') ''Invalid credential''), w)
             | Some a \<Rightarrow> (Inr (acc_uid a), w\<lparr>currentUser := Some (acc_uid a)\<rparr>))"

definition createUserWithEmailAndPassword :: "string \<Rightarrow> string \<Rightarrow> string prog" where
  "createUserWithEmailAndPassword e p =
     backend (CreateAccount e)
       (\<lambda>w. if find (\<lambda>a. acc_email a = e) (accounts w) \<noteq> None
             then (Inl (Error (Some ''auth/email-already-in-use'') ''Email already in use''), w)
             else if length p < 6
             then (Inl (Error (Some ''auth/weak-password'') ''Weak password''), w)
             else (Inr (shd (uid_supply w)),
                   w\<lparr>accounts := accounts w
                        @ [\<lparr>acc_uid = shd (uid_supply w), acc_email = e, acc_password = p\<rparr>],
                     currentUser := Some (shd (uid_supply w)),
                     uid_supply := stl (uid_supply w)\<rparr>))"

definition reauthenticateWithCredential :: "string option \<Rightarrow> string \<Rightarrow> string \<Rightarrow> unit prog" where
  "reauthenticateWithCredential user e p =
     backend Reauthenticate
       (\<lambda>w. case user of
               None \<Rightarrow> (Inl (Error None ''No current user''), w)
             | Some u \<Rightarrow>
                 (case find (\<lambda>a. acc_uid a = u) (accounts w) of
                    None \<Rightarrow> (Inl (Error (Some ''auth/user-not-found'') ''User not found''), w)
                  | Some a \<Rightarrow>
                      if acc_email a = e \<and> acc_password a = p then (Inr (), w)
                      else (Inl (Error (Some ''auth/wrong-password'') ''Wrong password''), w)))"

definition updateEmail :: "string option \<Rightarrow> string \<Rightarrow> unit prog" where
  "updateEmail user e =
     backend (UpdateEmail e)
       (\<lambda>w. case user of
               None \<Rightarrow> (Inl (Error None ''No current user''), w)
             | Some u \<Rightarrow>
                 if find (\<lambda>a. acc_email a = e \<and> acc_uid a \<noteq> u) (accounts w) \<noteq> None
                 then (Inl (Error (Some ''auth/email-already-in-use'') ''Email already in use''), w)
                 else (Inr (), w\<lparr>accounts :=
                         map (\<lambda>a. if acc_uid a = u then a\<lparr>acc_email := e\<rparr> else a) (accounts w)\<rparr>))"

definition updatePassword :: "string option \<Rightarrow> string \<Rightarrow> unit prog" where
  "updatePassword user p =
     backend UpdatePassword
       (\<lambda>w. case user of
               None \<Rightarrow> (Inl (Error None ''No current user''), w)
             | Some u \<Rightarrow>
                 (Inr (), w\<lparr>accounts :=
                    map (\<lambda>a. if acc_uid a = u then a\<lparr>acc_password := p\<rparr> else a) (accounts w)\<rparr>))"

section \<open>The unseen-item counter (page-auth.js)\<close>

text \<open>
  \<open>getNewItemsCount(collectionName, dateField, lastViewedTimestamp)\<close>. The last argument
  is \<open>None\<close> when the property read gave \<open>undefined\<close>; a timestamp object is always truthy.
\<close>

definition getNewItemsCount :: "string \<Rightarrow> string \<Rightarrow> timestamp option \<Rightarrow> int prog" where
  "getNewItemsCount collectionName dateField lastViewedTimestamp =
     try_catch
       (case lastViewedTimestamp of
          None \<Rightarrow> return 0
        | Some t \<Rightarrow>
            await (query_gt collectionName dateField t) (\<lambda>querySnapshot.
              return (int (length querySnapshot))))
       (\<lambda>e. return 0)"

text \<open>\<open>updateBadge(badgeId, count)\<close>; nothing happens when the page has no such element.\<close>

definition updateBadge :: "string \<Rightarrow> int \<Rightarrow> world \<Rightarrow> world" where
  "updateBadge badgeId n w =
     (case badges w badgeId of
        None \<Rightarrow> w
      | Some b \<Rightarrow>
          if n > 0
          then w\<lparr>badges := (badges w)(badgeId \<mapsto>
                 b\<lparr>textContent := (if n > 99 then Text ''99+'' else CountText n),
                   display := ''inline-flex''\<rparr>)\<rparr>
          else w\<lparr>badges := (badges w)(badgeId \<mapsto> b\<lparr>display := ''none''\<rparr>)\<rparr>)"

text \<open>
  \<open>loadNotificationCounts(user)\<close>. \<open>lastViews.products\<close> is the lookup of the key in the
  data of the view-state document, or in \<open>{}\<close> when there is no document.
\<close>

definition loadNotificationCounts :: "user_data \<Rightarrow> unit prog" where
  "loadNotificationCounts user =
     try_catch
       (await (getDoc_userPageViews (uid user)) (\<lambda>userViewsDoc.
          let lastViews = dataOrEmpty userViewsDoc in
          await (promise_all3
                   (getNewItemsCount ''products'' ''createdAt'' (lastViews ''products''))
                   (getNewItemsCount ''inbound'' ''createdAt'' (lastViews ''inbound''))
                   (getNewItemsCount ''outbound'' ''createdAt'' (lastViews ''outbound'')))
            (\<lambda>(productsCount, inboundCount, outboundCount) w.
               return ()
                 (updateBadge ''outbound-badge'' outboundCount
                   (updateBadge ''inbound-badge'' inboundCount
                     (updateBadge ''products-badge'' productsCount w))))))
       (\<lambda>e. return ())"

text \<open>\<open>markPageAsViewed(userId, pageName)\<close>.\<close>

definition markPageAsViewed :: "string \<Rightarrow> string \<Rightarrow> unit prog" where
  "markPageAsViewed userId pageName =
     try_catch
       (await (getDoc_userPageViews userId) (\<lambda>userViewsDoc.
          let currentData = dataOrEmpty userViewsDoc in
          await (setDoc_userPageViews_merge userId
                   ((map_option Stamp \<circ> currentData)(pageName \<mapsto> ServerTimestamp)))
            (\<lambda>_ w. return () (updateBadge (pageName @ ''-badge'') 0 w))))
       (\<lambda>e. return ())"

section \<open>Authentication (auth.js)\<close>

text \<open>
  \<open>loginWithUsername(username, password)\<close>: \<open>loginAttempt\<close> is the body of its \<open>try\<close> block,
  \<open>loginMessage\<close> the message that its \<open>catch\<close> block chooses.
\<close>

definition loginAttempt :: "string \<Rightarrow> string \<Rightarrow> session_user result prog" where
  "loginAttempt usernameIn password =
     await (query_username (toLowerCase usernameIn)) (\<lambda>querySnapshot.
       case querySnapshot of
         [] \<Rightarrow> throw (Error None ''Invalid username or password'')
       | (docId, userData) # _ \<Rightarrow>
           await (signInWithEmailAndPassword (email userData) password) (\<lambda>credentialUid.
             return (Success \<lparr>su_uid = credentialUid, su_email = email userData,
                              su_username = username userData,
                              su_displayName = displayName userData,
                              su_role = role userData\<rparr>)))"

definition loginMessage :: "error \<Rightarrow> string" where
  "loginMessage e =
     (if code e = Some ''auth/too-many-requests''
      then ''Too many failed attempts. Please try again later.''
      else ''Invalid username or password'')"

definition loginWithUsername :: "string \<Rightarrow> string \<Rightarrow> session_user result prog" where
  "loginWithUsername usernameIn password =
     try_catch (loginAttempt usernameIn password) (\<lambda>e. return (Failure (loginMessage e)))"

text \<open>\<open>getCurrentUserData()\<close>; \<open>None\<close> is \<open>null\<close>.\<close>

definition getCurrentUserData :: "user_data option prog" where
  "getCurrentUserData w =
     (case currentUser w of
        None \<Rightarrow> return None w
      | Some u \<Rightarrow>
          try_catch
            (await (getDoc_users u) (\<lambda>userDoc.
               case userDoc of
                 Some d \<Rightarrow> return (Some \<lparr>uid = u, data = d\<rparr>)
               | None \<Rightarrow> return None))
            (\<lambda>e. return None) w)"

text \<open>\<open>isUsernameTaken(username)\<close>.\<close>

definition isUsernameTaken :: "string \<Rightarrow> bool prog" where
  "isUsernameTaken usernameIn =
     await (query_username (toLowerCase usernameIn)) (\<lambda>querySnapshot.
       return (querySnapshot \<noteq> []))"

text \<open>
  \<open>createUser(username, email, password, role, displayName)\<close>; an empty string is falsy.
\<close>

definition createUserMessage :: "error \<Rightarrow> string" where
  "createUserMessage e =
     (if code e = Some ''auth/email-already-in-use'' then ''Email is already in use''
      else if code e = Some ''auth/invalid-email'' then ''Invalid email address''
      else if code e = Some ''auth/weak-password'' then ''Password should be at least 6 characters''
      else message e)"

definition isAdmin :: "user_data option \<Rightarrow> bool" where
  "isAdmin adminData = (case adminData of None \<Rightarrow> False | Some a \<Rightarrow> role (data a) = ''admin'')"

definition createUser ::
  "string \<Rightarrow> string \<Rightarrow> string \<Rightarrow> string \<Rightarrow> string \<Rightarrow> session_user result prog" where
  "createUser usernameIn emailIn password roleIn displayNameIn =
     try_catch
       (if usernameIn = [] \<or> emailIn = [] \<or> password = [] \<or> roleIn = [] \<or> displayNameIn = []
        then throw (Error None ''All fields are required'')
        else
          await (isUsernameTaken usernameIn) (\<lambda>usernameTaken.
            if usernameTaken then throw (Error None ''Username is already taken'')
            else (\<lambda>w.
              case currentUser w of
                None \<Rightarrow> throw (Error None ''You must be logged in as admin to create users'') w
              | Some adminUid \<Rightarrow>
                  await getCurrentUserData (\<lambda>adminData.
                    if \<not> isAdmin adminData
                    then throw (Error None ''Only admins can create new users'')
                    else
                      await (createUserWithEmailAndPassword emailIn password) (\<lambda>newUid.
                        await (setDoc_users newUid (\<lambda>t.
                                 \<lparr>username = toLowerCase usernameIn,
                                  email = toLowerCase emailIn,
                                  role = roleIn,
                                  displayName = displayNameIn,
                                  createdAt = t,
                                  createdBy = adminUid\<rparr>))
                          (\<lambda>_. return (Success
                                 \<lparr>su_uid = newUid, su_email = toLowerCase emailIn,
                                  su_username = toLowerCase usernameIn,
                                  su_displayName = displayNameIn,
                                  su_role = roleIn\<rparr>)))) w)))
       (\<lambda>e. return (Failure (createUserMessage e)))"

text \<open>
  \<open>deleteUserData(uid)\<close>. Reading \<open>auth.currentUser.uid\<close> with nobody signed in throws a
  \<open>TypeError\<close>, inside the \<open>try\<close> block.
\<close>

definition deleteUserData :: "string \<Rightarrow> unit result prog" where
  "deleteUserData uidIn =
     try_catch
       (await getCurrentUserData (\<lambda>adminData.
          if \<not> isAdmin adminData then throw (Error None ''Only admins can delete users'')
          else (\<lambda>w.
            case currentUser w of
              None \<Rightarrow> throw (Error None ''Cannot read properties of null'') w
            | Some u \<Rightarrow>
                (if uidIn = u then throw (Error None ''You cannot delete your own account'')
                 else await (deleteDoc_users uidIn) (\<lambda>_. return (Success ()))) w)))
       (\<lambda>e. return (Failure (message e)))"

text \<open>
  \<open>requireAuth(redirectUrl)\<close>. The promise is fulfilled with the user data, or it stays
  pending for ever while the page is sent to \<open>redirectUrl\<close>. The listener of
  \<open>onAuthStateChanged\<close> is called once, with \<open>auth.currentUser\<close>.
\<close>

datatype 'a settled = Resolved 'a | Pending

definition redirect :: "string \<Rightarrow> world \<Rightarrow> world" where
  "redirect url w = w\<lparr>href := Some url\<rparr>"

definition requireAuth :: "string \<Rightarrow> user_data settled prog" where
  "requireAuth redirectUrl w =
     (case currentUser w of
        Some u \<Rightarrow>
          await getCurrentUserData (\<lambda>userData.
            case userData of
              Some ud \<Rightarrow> return (Resolved ud)
            | None \<Rightarrow> (\<lambda>w'. return Pending (redirect redirectUrl w'))) w
      | None \<Rightarrow> return Pending (redirect redirectUrl w))"

text \<open>\<open>initializeFirstAdmin(username, email, password, displayName)\<close>.\<close>

definition initializeFirstAdmin :: "string \<Rightarrow> string \<Rightarrow> string \<Rightarrow> string \<Rightarrow> string result prog" where
  "initializeFirstAdmin usernameIn emailIn password displayNameIn =
     try_catch
       (await getDocs_users (\<lambda>querySnapshot.
          if querySnapshot \<noteq> []
          then throw (Error None ''Users already exist. Cannot initialize first admin.'')
          else
            await (createUserWithEmailAndPassword emailIn password) (\<lambda>newUid.
              await (setDoc_users newUid (\<lambda>t.
                       \<lparr>username = toLowerCase usernameIn,
                        email = toLowerCase emailIn,
                        role = ''admin'',
                        displayName = displayNameIn,
                        createdAt = t,
                        createdBy = ''system''\<rparr>))
                (\<lambda>_. return (Success ''First admin created successfully'')))))
       (\<lambda>e. return (Failure (message e)))"

section \<open>Page start and the profile form (page-auth.js)\<close>

definition getLoginPath :: "world \<Rightarrow> string" where
  "getLoginPath w =
     (if includes_str (pathname w) ''/pages/'' then ''../pages/login.html'' else ''./pages/login.html'')"

text \<open>
  \<open>initPageAuth(currentPage)\<close>. The result is \<open>Pending\<close> when \<open>requireAuth\<close> never answers.
  \<open>updateUserDisplay\<close>, \<open>addAdminLinkIfAdmin\<close>, \<open>setupLogoutButton\<close> and \<open>setupProfileModal\<close>
  only build page elements and have no part in the state modelled here. \<open>currentPage\<close> is
  \<open>None\<close> for \<open>null\<close>; an empty page name is falsy too.
\<close>

definition initPageAuth :: "string option \<Rightarrow> user_data option settled prog" where
  "initPageAuth currentPage w =
     (let loginPath = getLoginPath w in
      try_catch
        (await (requireAuth loginPath) (\<lambda>gate.
           case gate of
             Pending \<Rightarrow> return Pending
           | Resolved user \<Rightarrow>
               await (\<lambda>w1. return () (w1\<lparr>currentUserData := Some user\<rparr>)) (\<lambda>_.
               await (loadNotificationCounts user) (\<lambda>_.
               await (case currentPage of
                        None \<Rightarrow> return ()
                      | Some page \<Rightarrow>
                          if page = [] then return () else markPageAsViewed (uid user) page)
                 (\<lambda>_. return (Resolved (Some user)))))))
        (\<lambda>e w'. return (Resolved None) (redirect loginPath w')) w)"

text \<open>
  \<open>window.saveProfile()\<close>, on the form as typed. The outcome is what the user is shown: a
  validation message (the function returns before its \<open>try\<close> block), success, or the
  message of the \<open>catch\<close> block. Reading \<open>currentUserData.email\<close> before \<open>initPageAuth\<close> has
  set the variable throws a \<open>TypeError\<close>, outside the \<open>try\<close> block.
\<close>

datatype save_outcome = ValidationError string | Saved | UpdateFailed string

definition saveProfileMessage :: "error \<Rightarrow> string" where
  "saveProfileMessage err =
     (if code err = Some ''auth/wrong-password'' then ''Current password is incorrect''
      else if code err = Some ''auth/email-already-in-use''
      then ''Email is already in use by another account''
      else if code err = Some ''auth/invalid-email'' then ''Invalid email address''
      else if code err = Some ''auth/requires-recent-login''
      then ''Please log out and log back in to change your email or password''
      else ''Failed to update profile'')"

definition saveProfileUpdate :: "user_data \<Rightarrow> string \<Rightarrow> string \<Rightarrow> string \<Rightarrow> string \<Rightarrow> bool \<Rightarrow> bool
    \<Rightarrow> save_outcome prog" where
  "saveProfileUpdate cud displayNameV emailV currentPassword newPassword emailChanged passwordChanged =
     try_catch
       (\<lambda>w. (let user = currentUser w in
          await (if emailChanged \<or> passwordChanged
                 then reauthenticateWithCredential user (email (data cud)) currentPassword
                 else return ()) (\<lambda>_.
          await (if emailChanged then updateEmail user emailV else return ()) (\<lambda>_.
          await (if passwordChanged then updatePassword user newPassword else return ()) (\<lambda>_.
          await (updateDoc_users (uid cud)
                   (\<lambda>p. p\<lparr>displayName := displayNameV, email := toLowerCase emailV\<rparr>)) (\<lambda>_ w'.
            return Saved
              (w'\<lparr>currentUserData := Some (cud\<lparr>data :=
                    (data cud)\<lparr>displayName := displayNameV, email := toLowerCase emailV\<rparr>\<rparr>)\<rparr>)))))) w)
       (\<lambda>err. return (UpdateFailed (saveProfileMessage err)))"

definition saveProfile :: "profile_form \<Rightarrow> save_outcome prog" where
  "saveProfile form w =
     (let displayNameV = trim (profileDisplayName form);
          emailV = trim (profileEmail form);
          currentPassword = profileCurrentPassword form;
          newPassword = profileNewPassword form;
          confirmPassword = profileConfirmPassword form
      in
      if displayNameV = [] then return (ValidationError ''Display name is required'') w
      else if emailV = [] then return (ValidationError ''Email is required'') w
      else
        case currentUserData w of
          None \<Rightarrow> throw (Error None ''Cannot read properties of null'') w
        | Some cud \<Rightarrow>
            (let emailChanged = (toLowerCase emailV \<noteq> toLowerCase (email (data cud)));
                 passwordChanged = (length newPassword > 0)
             in
             if (emailChanged \<or> passwordChanged) \<and> currentPassword = []
             then return (ValidationError
                    ''Current password is required to change email or password'') w
             else if passwordChanged \<and> newPassword \<noteq> confirmPassword
             then return (ValidationError ''New passwords do not match'') w
             else if passwordChanged \<and> length newPassword < 6
             then return (ValidationError ''New password must be at least 6 characters'') w
             else saveProfileUpdate cud displayNameV emailV currentPassword newPassword
                    emailChanged passwordChanged w))"

section \<open>Stored usernames\<close>

text \<open>Every username in the collection \<open>users\<close> is in lower case.\<close>

definition usernamesLower :: "world \<Rightarrow> bool" where
  "usernamesLower w = list_all (\<lambda>(docId, p). toLowerCase (username p) = username p) (users w)"

section \<open>A sample state\<close>

text \<open>
  An administrator \<open>ann\<close> and a staff member \<open>bob\<close>; \<open>ann\<close> is signed in on the products
  page, which she last opened at time 100. Of the four products one was created before
  that, one at that very time, one after it, and one has no creation time.
\<close>

definition ann :: profile where
  "ann = \<lparr>username = ''ann'', email = ''ann@shop.test'', role = ''admin'',
          displayName = ''Ann'', createdAt = 10, createdBy = ''system''\<rparr>"

definition bob :: profile where
  "bob = \<lparr>username = ''bob'', email = ''bob@shop.test'', role = ''staff'',
          displayName = ''Bob'', createdAt = 20, createdBy = ''u1''\<rparr>"

definition sample_items :: "string \<Rightarrow> (string \<times> document) list" where
  "sample_items c =
     (if c = ''products''
      then [(''p1'', [''createdAt'' \<mapsto> FTimestamp 99]),
            (''p2'', [''createdAt'' \<mapsto> FTimestamp 100]),
            (''p3'', [''createdAt'' \<mapsto> FTimestamp 101]),
            (''p4'', [''name'' \<mapsto> FString ''crate''])]
      else if c = ''inbound''
      then [(''i1'', [''createdAt'' \<mapsto> FTimestamp 150])]
      else [])"

definition sample_world :: world where
  "sample_world =
     \<lparr>accounts = [\<lparr>acc_uid = ''u1'', acc_email = ''ann@shop.test'', acc_password = ''secret1''\<rparr>,
                  \<lparr>acc_uid = ''u2'', acc_email = ''bob@shop.test'', acc_password = ''secret2''\<rparr>],
      currentUser = Some ''u1'',
      uid_supply = siterate (\<lambda>u. u @ ''x'') ''u3'',
      users = [(''u1'', ann), (''u2'', bob)],
      userPageViews = [''u1'' \<mapsto> [''products'' \<mapsto> 100]],
      items = sample_items,
      now = 200,
      faults = [],
      trace = [],
      pathname = ''/pages/products.html'',
      href = None,
      currentUserData = Some \<lparr>uid = ''u1'', data = ann\<rparr>,
      badges = [''products-badge'' \<mapsto> \<lparr>textContent = Text ''7'', display = ''inline-flex''\<rparr>]\<rparr>"

text \<open>The same state with the network down for the next call.\<close>

definition offline :: error where
  "offline = Error (Some ''unavailable'') ''Failed to get document because the client is offline.''"

definition sample_world_offline :: world where
  "sample_world_offline = sample_world\<lparr>faults := [Some offline]\<rparr>"

text \<open>
  The same state when the lookup of the user and the read of her view state go through and
  the third call, the count of new products, fails.
\<close>

definition sample_world_flaky :: world where
  "sample_world_flaky = sample_world\<lparr>faults := [None, None, Some offline]\<rparr>"

text \<open>
  Three ways to fill in the profile form: a new display name only, with something typed in
  the confirmation field by mistake; a new password whose confirmation differs; and a new
  display name with the email as stored.
\<close>

definition form_stray_confirmation :: profile_form where
  "form_stray_confirmation =
     \<lparr>profileDisplayName = ''Ann B.'', profileEmail = ''ann@shop.test'',
      profileCurrentPassword = [], profileNewPassword = [],
      profileConfirmPassword = ''secret9''\<rparr>"

definition form_mismatch :: profile_form where
  "form_mismatch =
     \<lparr>profileDisplayName = ''Ann'', profileEmail = ''ann@shop.test'',
      profileCurrentPassword = ''secret1'', profileNewPassword = ''secret8'',
      profileConfirmPassword = ''secret9''\<rparr>"

definition form_rename :: profile_form where
  "form_rename =
     \<lparr>profileDisplayName = ''Ann B.'', profileEmail = ''ann@shop.test'',
      profileCurrentPassword = [], profileNewPassword = [], profileConfirmPassword = []\<rparr>"

text \<open>
  The sample state with a third user, whose username is \<open>eva\<close> with an acute accent on the
  \<open>e\<close> (U+00E9); and the state before the first administrator exists, with nothing stored
  and nobody signed in.
\<close>

definition eva :: profile where
  "eva = \<lparr>username = [CHR 0xE9, CHR ''v'', CHR ''a''], email = ''eva@shop.test'', role = ''staff'',
          displayName = ''Eva'', createdAt = 30, createdBy = ''u1''\<rparr>"

definition sample_world_eva :: world where
  "sample_world_eva =
     sample_world
       \<lparr>accounts := accounts sample_world
          @ [\<lparr>acc_uid = ''u5'', acc_email = ''eva@shop.test'', acc_password = ''secret5''\<rparr>],
        users := users sample_world @ [(''u5'', eva)]\<rparr>"

definition sample_world_empty :: world where
  "sample_world_empty =
     sample_world\<lparr>accounts := [], currentUser := None, users := [],
       userPageViews := Map.empty, currentUserData := None\<rparr>"

text \<open>The form with the email as stored and a display name of one no-break space.\<close>

definition form_blank_name :: profile_form where
  "form_blank_name =
     \<lparr>profileDisplayName = [CHR 0xA0], profileEmail = ''ann@shop.test'',
      profileCurrentPassword = [], profileNewPassword = [], profileConfirmPassword = []\<rparr>"

section \<open>Basic facts\<close>

subsection \<open>Strings\<close>

lemma lowerChar_idem: "lowerChar (lowerChar c) = lowerChar c"
  unfolding lowerChar_def upperLetters_def lowerLetters_def
  by (simp split: if_splits)

lemma toLowerCase_idem: "toLowerCase (toLowerCase s) = toLowerCase s"
  by (simp add: toLowerCase_def lowerChar_idem)

subsection \<open>Network calls\<close>

lemma issue_fields [simp]:
  "accounts (issue c w) = accounts w"
  "currentUser (issue c w) = currentUser w"
  "uid_supply (issue c w) = uid_supply w"
  "users (issue c w) = users w"
  "userPageViews (issue c w) = userPageViews w"
  "items (issue c w) = items w"
  "now (issue c w) = now w"
  "pathname (issue c w) = pathname w"
  "href (issue c w) = href w"
  "currentUserData (issue c w) = currentUserData w"
  "badges (issue c w) = badges w"
  "trace (issue c w) = trace w @ [c]"
  "faults (issue c w) = tl (faults w)"
  by (simp_all add: issue_def)

lemma updateBadge_fields [simp]:
  "accounts (updateBadge b n w) = accounts w"
  "currentUser (updateBadge b n w) = currentUser w"
  "uid_supply (updateBadge b n w) = uid_supply w"
  "users (updateBadge b n w) = users w"
  "userPageViews (updateBadge b n w) = userPageViews w"
  "items (updateBadge b n w) = items w"
  "now (updateBadge b n w) = now w"
  "pathname (updateBadge b n w) = pathname w"
  "href (updateBadge b n w) = href w"
  "currentUserData (updateBadge b n w) = currentUserData w"
  "trace (updateBadge b n w) = trace w"
  "faults (updateBadge b n w) = faults w"
  by (simp_all add: updateBadge_def split: option.splits)

lemma noFaults_Suc: "noFaults (Suc n) w \<longleftrightarrow> nextFault w = None \<and> noFaults n (issue c w)"
  by (cases "faults w") (simp_all add: noFaults_def nextFault_def)

lemma noFaults_0 [simp]: "noFaults 0 w"
  by (simp add: noFaults_def)

lemma nextFault_first: "noFaults (Suc n) w \<Longrightarrow> nextFault w = None"
  by (cases "faults w") (simp_all add: noFaults_def nextFault_def)

lemma nextFault_second:
  "noFaults (Suc (Suc n)) w \<Longrightarrow> faults w' = tl (faults w) \<Longrightarrow> nextFault w' = None"
  by (cases "faults w"; cases "tl (faults w)") (auto simp: noFaults_def nextFault_def)

lemma nextFault_third:
  "noFaults (Suc (Suc (Suc n))) w \<Longrightarrow> faults w' = tl (tl (faults w)) \<Longrightarrow> nextFault w' = None"
  by (cases "faults w"; cases "tl (faults w)"; cases "tl (tl (faults w))")
     (auto simp: noFaults_def nextFault_def)

lemma nextFault_fourth:
  "noFaults (Suc (Suc (Suc (Suc n)))) w \<Longrightarrow> faults w' = tl (tl (tl (faults w))) \<Longrightarrow>
   nextFault w' = None"
  by (cases "faults w"; cases "tl (faults w)"; cases "tl (tl (faults w))";
      cases "tl (tl (tl (faults w)))")
     (auto simp: noFaults_def nextFault_def)

subsection \<open>Sequencing\<close>

lemma await_alt:
  "await m k w = (case fst (m w) of Inl e \<Rightarrow> (Inl e, snd (m w)) | Inr x \<Rightarrow> k x (snd (m w)))"
  by (simp add: await_def split: prod.splits sum.splits)

lemma try_catch_alt:
  "try_catch m h w = (case fst (m w) of Inl e \<Rightarrow> h e (snd (m w)) | Inr x \<Rightarrow> (Inr x, snd (m w)))"
  by (simp add: try_catch_def split: prod.splits sum.splits)

lemma fst_catch_unit: "fst (try_catch m (\<lambda>e. return ()) w) = Inr ()"
  by (simp add: try_catch_def return_def split: prod.splits sum.splits)

text \<open>A part \<open>f\<close> of the state that every step leaves alone is left alone by the whole.\<close>

lemma keeps_await:
  assumes "\<And>w. f (snd (m w)) = f w" and "\<And>x w. f (snd (k x w)) = f w"
  shows "f (snd (await m k w)) = f w"
  using assms(1) [of w] assms(2) by (auto simp: await_def split: prod.splits sum.splits)

lemma keeps_try_catch:
  assumes "\<And>w. f (snd (m w)) = f w" and "\<And>e w. f (snd (h e w)) = f w"
  shows "f (snd (try_catch m h w)) = f w"
  using assms(1) [of w] assms(2) by (auto simp: try_catch_def split: prod.splits sum.splits)

lemma keeps_backend:
  assumes "\<And>w. f (issue c w) = f w" and "\<And>w. f (snd (work w)) = f w"
  shows "f (snd (backend c work w)) = f w"
  using assms by (simp add: backend_def split: option.splits)

lemma keeps_promise_all3:
  assumes "\<And>w. f (snd (a w)) = f w" and "\<And>w. f (snd (b w)) = f w" and "\<And>w. f (snd (c w)) = f w"
  shows "f (snd (promise_all3 a b c w)) = f w"
proof -
  obtain ra wa where a: "a w = (ra, wa)" by (cases "a w")
  obtain rb wb where b: "b wa = (rb, wb)" by (cases "b wa")
  obtain rc wc where c: "c wb = (rc, wc)" by (cases "c wb")
  have "f wc = f w"
    using assms(1) [of w] assms(2) [of wa] assms(3) [of wb] a b c by simp
  then show ?thesis
    by (simp add: promise_all3_def a b c split: sum.splits)
qed

subsection \<open>The sample state\<close>

lemma sample_fields [simp]:
  "currentUser sample_world = Some ''u1''"
  "users sample_world = [(''u1'', ann), (''u2'', bob)]"
  "userPageViews sample_world = [''u1'' \<mapsto> [''products'' \<mapsto> 100]]"
  "items sample_world = sample_items"
  "now sample_world = 200"
  "faults sample_world = []"
  "trace sample_world = []"
  "href sample_world = None"
  "currentUserData sample_world = Some \<lparr>uid = ''u1'', data = ann\<rparr>"
  "pathname sample_world = ''/pages/products.html''"
  by (simp_all add: sample_world_def)

lemma sample_accounts [simp]:
  "accounts sample_world =
     [\<lparr>acc_uid = ''u1'', acc_email = ''ann@shop.test'', acc_password = ''secret1''\<rparr>,
      \<lparr>acc_uid = ''u2'', acc_email = ''bob@shop.test'', acc_password = ''secret2''\<rparr>]"
  by (simp add: sample_world_def)

lemma sample_offline_fields [simp]:
  "currentUser sample_world_offline = Some ''u1''"
  "users sample_world_offline = [(''u1'', ann), (''u2'', bob)]"
  "userPageViews sample_world_offline = [''u1'' \<mapsto> [''products'' \<mapsto> 100]]"
  "items sample_world_offline = sample_items"
  "now sample_world_offline = 200"
  "faults sample_world_offline = [Some offline]"
  "trace sample_world_offline = []"
  "href sample_world_offline = None"
  "currentUserData sample_world_offline = Some \<lparr>uid = ''u1'', data = ann\<rparr>"
  "pathname sample_world_offline = ''/pages/products.html''"
  "accounts sample_world_offline = accounts sample_world"
  by (simp_all add: sample_world_offline_def)

lemma sample_flaky_fields [simp]:
  "currentUser sample_world_flaky = Some ''u1''"
  "users sample_world_flaky = [(''u1'', ann), (''u2'', bob)]"
  "userPageViews sample_world_flaky = [''u1'' \<mapsto> [''products'' \<mapsto> 100]]"
  "items sample_world_flaky = sample_items"
  "now sample_world_flaky = 200"
  "faults sample_world_flaky = [None, None, Some offline]"
  "trace sample_world_flaky = []"
  "href sample_world_flaky = None"
  "currentUserData sample_world_flaky = Some \<lparr>uid = ''u1'', data = ann\<rparr>"
  "pathname sample_world_flaky = ''/pages/products.html''"
  "accounts sample_world_flaky = accounts sample_world"
  by (simp_all add: sample_world_flaky_def)

section \<open>The unseen-item counter\<close>

lemma getNewItemsCount_run:
  "getNewItemsCount c f lv w =
     (case lv of
        None \<Rightarrow> (Inr 0, w)
      | Some t \<Rightarrow>
          (Inr (case nextFault w of
                  Some e \<Rightarrow> 0
                | None \<Rightarrow> int (length (filter (\<lambda>(docId, d). laterThan f t d) (items w c)))),
           issue (QueryGt c f t) w))"
  by (simp add: getNewItemsCount_def try_catch_def return_def await_def query_gt_def backend_def
      split: option.splits)

lemma laterThan_iff: "laterThan f t d \<longleftrightarrow> (\<exists>s. d f = Some (FTimestamp s) \<and> t < s)"
  by (simp add: laterThan_def split: option.splits fieldval.splits)

lemma laterThan_eq: "laterThan f t = (\<lambda>d. \<exists>s. d f = Some (FTimestamp s) \<and> t < s)"
  by (rule ext) (simp add: laterThan_iff)

text \<open>
  Claim C1. When the user has no last-viewed timestamp for a collection, because there is
  no view-state document for the user or because the document lacks the key of the
  collection, \<open>getNewItemsCount\<close> returns 0, whatever the collection holds, and it issues no
  query.
\<close>

theorem getNewItemsCount_never_viewed:
  "userViewsDoc = None \<or> (\<exists>m. userViewsDoc = Some m \<and> m collectionName = None) \<Longrightarrow>
   getNewItemsCount collectionName dateField (dataOrEmpty userViewsDoc collectionName) w = (Inr 0, w)"
  by (auto simp: getNewItemsCount_run dataOrEmpty_def)

text \<open>
  In the sample state \<open>ann\<close> has never opened the inbound page, and \<open>bob\<close> has no view-state
  document: the counts are 0, although there is an inbound item and there are four
  products.
\<close>

theorem getNewItemsCount_never_viewed_witness:
  "length (items sample_world ''inbound'') = 1 \<and>
   dataOrEmpty (userPageViews sample_world ''u1'') ''inbound'' = None \<and>
   getNewItemsCount ''inbound'' ''createdAt''
     (dataOrEmpty (userPageViews sample_world ''u1'') ''inbound'') sample_world
     = (Inr 0, sample_world) \<and>
   length (items sample_world ''products'') = 4 \<and>
   userPageViews sample_world ''u2'' = None \<and>
   getNewItemsCount ''products'' ''createdAt''
     (dataOrEmpty (userPageViews sample_world ''u2'') ''products'') sample_world
     = (Inr 0, sample_world)"
  using getNewItemsCount_never_viewed
      [of "userPageViews sample_world ''u1''" "''inbound''" "''createdAt''" sample_world]
    getNewItemsCount_never_viewed
      [of "userPageViews sample_world ''u2''" "''products''" "''createdAt''" sample_world]
  by (simp add: sample_items_def dataOrEmpty_def)

text \<open>
  Claim C2. With a last-viewed timestamp \<open>t\<close>, and the count query answered by the backend,
  \<open>getNewItemsCount\<close> returns the number of documents of the collection whose creation
  timestamp is strictly later than \<open>t\<close>: a document created at \<open>t\<close> itself, or one without a
  creation timestamp, is not counted. The number is not negative. (What happens when the
  query throws is claim C7.)
\<close>

theorem getNewItemsCount_counts_later_items:
  "nextFault w = None \<Longrightarrow>
   \<exists>n. fst (getNewItemsCount collectionName dateField (Some t) w) = Inr n \<and> 0 \<le> n \<and>
     n = int (length (filter (\<lambda>(docId, d). \<exists>s. d dateField = Some (FTimestamp s) \<and> t < s)
                        (items w collectionName)))"
  by (simp add: getNewItemsCount_run laterThan_eq)

text \<open>
  Of the four sample products, created at 99, at 100, at 101 and at no recorded time, one
  is new for a user who last looked at time 100.
\<close>

theorem getNewItemsCount_counts_later_items_witness:
  "nextFault sample_world = None \<and>
   map (\<lambda>(docId, d). d ''createdAt'') (items sample_world ''products'')
     = [Some (FTimestamp 99), Some (FTimestamp 100), Some (FTimestamp 101), None] \<and>
   fst (getNewItemsCount ''products'' ''createdAt'' (Some 100) sample_world) = Inr 1"
proof -
  have h: "nextFault sample_world = None"
    by (simp add: nextFault_def)
  from getNewItemsCount_counts_later_items [OF h, of "''products''" "''createdAt''" 100]
  show ?thesis
    using h by (simp add: sample_items_def)
qed

section \<open>Marking a page as viewed\<close>

lemma merge_written:
  "(m ++ (map_option (resolveStamp t) \<circ> (map_option Stamp \<circ> m)))(k \<mapsto> resolveStamp t ServerTimestamp)
     = m(k \<mapsto> t)"
  by (rule ext) (simp add: map_add_def resolveStamp_def split: option.splits)

lemma markPageAsViewed_run:
  "markPageAsViewed userId pageName w =
     (Inr (),
      case nextFault w of
        Some e \<Rightarrow> issue (GetDoc ''userPageViews'' userId) w
      | None \<Rightarrow>
          (let w1 = issue (GetDoc ''userPageViews'' userId) w in
           case nextFault w1 of
             Some e \<Rightarrow> issue (SetDoc ''userPageViews'' userId) w1
           | None \<Rightarrow>
               updateBadge (pageName @ ''-badge'') 0
                 ((issue (SetDoc ''userPageViews'' userId) w1)
                    \<lparr>userPageViews := (userPageViews w)
                       (userId \<mapsto> (dataOrEmpty (userPageViews w userId))(pageName \<mapsto> now w))\<rparr>)))"
  by (simp add: markPageAsViewed_def try_catch_def await_def return_def getDoc_userPageViews_def
      setDoc_userPageViews_merge_def backend_def merge_written Let_def split: option.splits)

text \<open>
  Claim C3. \<open>markPageAsViewed userId pageName\<close> changes nothing in the view state but the
  entry of \<open>pageName\<close> in the record of \<open>userId\<close>: the records of other users and the
  timestamps of the other collections in the user's record are as before, whether the
  two network calls go through or not. When they go through, the record of the user is
  the old one with the entry of \<open>pageName\<close> set to the server's time; the old record is
  empty when there was none, so the record is created.
\<close>

theorem markPageAsViewed_merges:
  "(\<forall>u. u \<noteq> userId \<longrightarrow>
      userPageViews (snd (markPageAsViewed userId pageName w)) u = userPageViews w u) \<and>
   (\<forall>k. k \<noteq> pageName \<longrightarrow>
      dataOrEmpty (userPageViews (snd (markPageAsViewed userId pageName w)) userId) k
        = dataOrEmpty (userPageViews w userId) k) \<and>
   (noFaults 2 w \<longrightarrow>
      userPageViews (snd (markPageAsViewed userId pageName w)) userId
        = Some ((dataOrEmpty (userPageViews w userId))(pageName \<mapsto> now w)))"
  by (simp add: markPageAsViewed_run Let_def numeral_2_eq_2
        noFaults_Suc [where c = "GetDoc ''userPageViews'' userId"]
        noFaults_Suc [where c = "SetDoc ''userPageViews'' userId"]
        dataOrEmpty_def split: option.splits)

text \<open>
  At server time 200, \<open>ann\<close> opens the inbound page: her record keeps the timestamp of the
  products page. When \<open>bob\<close>, who has no record, opens it, his record is created and hers
  is untouched.
\<close>

theorem markPageAsViewed_merges_witness:
  "noFaults 2 sample_world \<and>
   userPageViews sample_world ''u1'' = Some [''products'' \<mapsto> 100] \<and>
   userPageViews (snd (markPageAsViewed ''u1'' ''inbound'' sample_world)) ''u1''
     = Some [''products'' \<mapsto> 100, ''inbound'' \<mapsto> 200] \<and>
   userPageViews sample_world ''u2'' = None \<and>
   userPageViews (snd (markPageAsViewed ''u2'' ''inbound'' sample_world)) ''u2''
     = Some [''inbound'' \<mapsto> 200] \<and>
   userPageViews (snd (markPageAsViewed ''u2'' ''inbound'' sample_world)) ''u1''
     = Some [''products'' \<mapsto> 100]"
proof -
  have h: "noFaults 2 sample_world"
    by (simp add: noFaults_def)
  show ?thesis
    using h markPageAsViewed_merges [of "''u1''" "''inbound''" sample_world]
      markPageAsViewed_merges [of "''u2''" "''inbound''" sample_world]
    by (simp add: dataOrEmpty_def)
qed

section \<open>The session gate\<close>

lemma getCurrentUserData_run:
  "getCurrentUserData w =
     (case currentUser w of
        None \<Rightarrow> (Inr None, w)
      | Some u \<Rightarrow>
          (Inr (case nextFault w of
                  Some e \<Rightarrow> None
                | None \<Rightarrow> map_option (\<lambda>d. \<lparr>uid = u, data = d\<rparr>) (map_of (users w) u)),
           issue (GetDoc ''users'' u) w))"
  by (simp add: getCurrentUserData_def try_catch_def await_def return_def getDoc_users_def
      backend_def split: option.splits)

lemma requireAuth_run:
  "requireAuth url w =
     (case currentUser w of
        None \<Rightarrow> (Inr Pending, redirect url w)
      | Some u \<Rightarrow>
          (case nextFault w of
             Some e \<Rightarrow> (Inr Pending, redirect url (issue (GetDoc ''users'' u) w))
           | None \<Rightarrow>
               (case map_of (users w) u of
                  None \<Rightarrow> (Inr Pending, redirect url (issue (GetDoc ''users'' u) w))
                | Some d \<Rightarrow> (Inr (Resolved \<lparr>uid = u, data = d\<rparr>), issue (GetDoc ''users'' u) w))))"
  by (simp add: requireAuth_def getCurrentUserData_run await_def return_def
      split: option.splits)

text \<open>
  Claim C6. \<open>requireAuth\<close> treats every failure as unauthenticated and sends the page to
  the redirect address, its promise staying pending: when the identity provider reports
  no signed-in user, when the profile lookup throws, and when there is no profile
  document. It resolves, with the user id and the profile document, exactly when a user
  is signed in, the lookup goes through and the document exists; then it does not
  redirect. It never rejects.
\<close>

theorem requireAuth_outcomes:
  "(currentUser w = None \<longrightarrow>
      fst (requireAuth url w) = Inr Pending \<and> href (snd (requireAuth url w)) = Some url) \<and>
   (\<forall>u e. currentUser w = Some u \<and> nextFault w = Some e \<longrightarrow>
      fst (requireAuth url w) = Inr Pending \<and> href (snd (requireAuth url w)) = Some url) \<and>
   (\<forall>u. currentUser w = Some u \<and> nextFault w = None \<and> map_of (users w) u = None \<longrightarrow>
      fst (requireAuth url w) = Inr Pending \<and> href (snd (requireAuth url w)) = Some url) \<and>
   (\<forall>ud. fst (requireAuth url w) = Inr (Resolved ud) \<longleftrightarrow>
      (\<exists>u d. currentUser w = Some u \<and> nextFault w = None \<and> map_of (users w) u = Some d \<and>
             ud = \<lparr>uid = u, data = d\<rparr>)) \<and>
   (\<forall>ud. fst (requireAuth url w) = Inr (Resolved ud) \<longrightarrow>
      href (snd (requireAuth url w)) = href w) \<and>
   (\<forall>e. fst (requireAuth url w) \<noteq> Inl e)"
  by (auto simp: requireAuth_run redirect_def split: option.splits)

text \<open>
  In the sample state \<open>ann\<close> is signed in and has a profile: the gate resolves with it and
  does not redirect. With the network down for the lookup, with nobody signed in, and
  with her profile document gone, the page is sent to the login page.
\<close>

theorem requireAuth_outcomes_witness:
  "fst (requireAuth ''../pages/login.html'' sample_world) = Inr (Resolved \<lparr>uid = ''u1'', data = ann\<rparr>) \<and>
   href (snd (requireAuth ''../pages/login.html'' sample_world)) = None \<and>
   nextFault sample_world_offline = Some offline \<and>
   fst (requireAuth ''../pages/login.html'' sample_world_offline) = Inr Pending \<and>
   href (snd (requireAuth ''../pages/login.html'' sample_world_offline))
     = Some ''../pages/login.html'' \<and>
   fst (requireAuth ''../pages/login.html'' (sample_world\<lparr>currentUser := None\<rparr>)) = Inr Pending \<and>
   href (snd (requireAuth ''../pages/login.html'' (sample_world\<lparr>currentUser := None\<rparr>)))
     = Some ''../pages/login.html'' \<and>
   fst (requireAuth ''../pages/login.html'' (sample_world\<lparr>users := [(''u2'', bob)]\<rparr>)) = Inr Pending \<and>
   href (snd (requireAuth ''../pages/login.html'' (sample_world\<lparr>users := [(''u2'', bob)]\<rparr>)))
     = Some ''../pages/login.html''"
proof -
  have n: "nextFault sample_world = None" "nextFault sample_world_offline = Some offline"
    "nextFault (sample_world\<lparr>users := [(''u2'', bob)]\<rparr>) = None"
    by (simp_all add: nextFault_def)
  show ?thesis
    using n requireAuth_outcomes [of sample_world "''../pages/login.html''"]
      requireAuth_outcomes [of sample_world_offline "''../pages/login.html''"]
      requireAuth_outcomes [of "sample_world\<lparr>currentUser := None\<rparr>" "''../pages/login.html''"]
      requireAuth_outcomes [of "sample_world\<lparr>users := [(''u2'', bob)]\<rparr>" "''../pages/login.html''"]
    by simp
qed

section \<open>Failed counts and the page start\<close>

lemma loadNotificationCounts_fulfilled: "fst (loadNotificationCounts user w) = Inr ()"
  by (simp add: loadNotificationCounts_def fst_catch_unit)

lemma markPageAsViewed_fulfilled: "fst (markPageAsViewed userId pageName w) = Inr ()"
  by (simp add: markPageAsViewed_def fst_catch_unit)

lemma getNewItemsCount_href: "href (snd (getNewItemsCount c f lv w)) = href w"
  by (simp add: getNewItemsCount_run split: option.splits)

lemma loadNotificationCounts_href: "href (snd (loadNotificationCounts user w)) = href w"
  unfolding loadNotificationCounts_def
  apply (rule keeps_try_catch)
   apply (rule keeps_await)
    apply (simp add: getDoc_userPageViews_def)
    apply (rule keeps_backend; simp)
   apply (simp add: Let_def)
   apply (rule keeps_await)
    apply (rule keeps_promise_all3; rule getNewItemsCount_href)
   apply (simp add: return_def split: prod.splits)
  apply (simp add: return_def)
  done

lemma markPageAsViewed_href: "href (snd (markPageAsViewed userId pageName w)) = href w"
  by (simp add: markPageAsViewed_run Let_def split: option.splits)

lemma getNewItemsCount_currentUserData:
  "currentUserData (snd (getNewItemsCount c f lv w)) = currentUserData w"
  by (simp add: getNewItemsCount_run split: option.splits)

lemma loadNotificationCounts_currentUserData:
  "currentUserData (snd (loadNotificationCounts user w)) = currentUserData w"
  unfolding loadNotificationCounts_def
  apply (rule keeps_try_catch)
   apply (rule keeps_await)
    apply (simp add: getDoc_userPageViews_def)
    apply (rule keeps_backend; simp)
   apply (simp add: Let_def)
   apply (rule keeps_await)
    apply (rule keeps_promise_all3; rule getNewItemsCount_currentUserData)
   apply (simp add: return_def split: prod.splits)
  apply (simp add: return_def)
  done

lemma markIfPage_currentUserData:
  "currentUserData (snd ((case page of None \<Rightarrow> return ()
         | Some pg \<Rightarrow> if pg = [] then return () else markPageAsViewed u pg) w)) = currentUserData w"
  by (simp add: return_def markPageAsViewed_run Let_def split: option.splits)

lemma markIfPage_fulfilled:
  "fst ((case page of None \<Rightarrow> return ()
         | Some pg \<Rightarrow> if pg = [] then return () else markPageAsViewed u pg) w) = Inr ()"
  by (simp add: return_def markPageAsViewed_fulfilled split: option.splits)

lemma markIfPage_href:
  "href (snd ((case page of None \<Rightarrow> return ()
         | Some pg \<Rightarrow> if pg = [] then return () else markPageAsViewed u pg) w)) = href w"
  by (simp add: return_def markPageAsViewed_href split: option.splits)

lemma initPageAuth_resolved:
  assumes gate: "requireAuth (getLoginPath w) w = (Inr (Resolved ud), w1)"
  shows "fst (initPageAuth page w) = Inr (Resolved (Some ud)) \<and>
         href (snd (initPageAuth page w)) = href w1"
  by (simp add: initPageAuth_def Let_def try_catch_alt await_alt gate return_def
      loadNotificationCounts_fulfilled loadNotificationCounts_href
      markIfPage_fulfilled markIfPage_href)

text \<open>
  When \<open>initPageAuth\<close> returns a user, it has stored that user in \<open>currentUserData\<close>: this
  is the state in which the profile form, and with it \<open>saveProfile\<close>, is on the page.
\<close>

lemma initPageAuth_stores_user:
  assumes gate: "requireAuth (getLoginPath w) w = (Inr (Resolved ud), w1)"
  shows "currentUserData (snd (initPageAuth page w)) = Some ud"
  by (simp add: initPageAuth_def Let_def try_catch_alt await_alt gate return_def
      loadNotificationCounts_fulfilled loadNotificationCounts_currentUserData
      markIfPage_fulfilled markIfPage_currentUserData)

lemma initPageAuth_pending:
  assumes gate: "requireAuth (getLoginPath w) w = (Inr Pending, w1)"
  shows "initPageAuth page w = (Inr Pending, w1)"
  by (simp add: initPageAuth_def Let_def try_catch_alt await_alt gate return_def)

lemma requireAuth_cases:
  "(\<exists>w1. requireAuth url w = (Inr Pending, w1)) \<or>
   (\<exists>ud w1. requireAuth url w = (Inr (Resolved ud), w1) \<and> href w1 = href w)"
  by (auto simp: requireAuth_run split: option.splits)

text \<open>
  Claim C7. When the count query throws, \<open>getNewItemsCount\<close> returns 0; it never rejects.
  \<open>loadNotificationCounts\<close> never rejects either. So \<open>initPageAuth\<close> never rejects and never
  takes its \<open>catch\<close> branch (which would send the page to the login page and return
  \<open>null\<close>): whenever the session gate resolves with a user, \<open>initPageAuth\<close> returns that user
  and no redirect happens, whatever faults the network calls after the gate meet.
\<close>

theorem failed_counts_degrade_to_zero:
  "(\<forall>e. nextFault w = Some e \<longrightarrow> fst (getNewItemsCount c f (Some t) w) = Inr 0) \<and>
   (\<forall>e. fst (getNewItemsCount c f lv w) \<noteq> Inl e) \<and>
   fst (loadNotificationCounts user w) = Inr () \<and>
   (\<forall>e. fst (initPageAuth page w) \<noteq> Inl e) \<and>
   fst (initPageAuth page w) \<noteq> Inr (Resolved None) \<and>
   (\<forall>ud. fst (requireAuth (getLoginPath w) w) = Inr (Resolved ud) \<longrightarrow>
      fst (initPageAuth page w) = Inr (Resolved (Some ud)) \<and>
      href (snd (initPageAuth page w)) = href w)"
proof -
  have a: "\<forall>e. nextFault w = Some e \<longrightarrow> fst (getNewItemsCount c f (Some t) w) = Inr 0"
    by (simp add: getNewItemsCount_run)
  have b: "\<forall>e. fst (getNewItemsCount c f lv w) \<noteq> Inl e"
    by (simp add: getNewItemsCount_run split: option.splits)
  have d: "(\<forall>e. fst (initPageAuth page w) \<noteq> Inl e) \<and>
      fst (initPageAuth page w) \<noteq> Inr (Resolved None) \<and>
      (\<forall>ud. fst (requireAuth (getLoginPath w) w) = Inr (Resolved ud) \<longrightarrow>
        fst (initPageAuth page w) = Inr (Resolved (Some ud)) \<and>
        href (snd (initPageAuth page w)) = href w)"
    using requireAuth_cases [of "getLoginPath w" w]
  proof (elim disjE exE conjE)
    fix w1 assume "requireAuth (getLoginPath w) w = (Inr Pending, w1)"
    then show ?thesis
      by (simp add: initPageAuth_pending)
  next
    fix ud w1
    assume g: "requireAuth (getLoginPath w) w = (Inr (Resolved ud), w1)" and h: "href w1 = href w"
    from initPageAuth_resolved [OF g, of page] h g show ?thesis
      by simp
  qed
  show ?thesis
    using a b d loadNotificationCounts_fulfilled by blast
qed

text \<open>
  One product is new for \<open>ann\<close>, but with the network down the count is 0. When the count
  query for the products is the call that fails during the page start, \<open>initPageAuth\<close>
  still returns \<open>ann\<close> and the page stays where it is.
\<close>

theorem failed_counts_degrade_to_zero_witness:
  "nextFault sample_world_offline = Some offline \<and>
   fst (getNewItemsCount ''products'' ''createdAt'' (Some 100) sample_world_offline) = Inr 0 \<and>
   fst (loadNotificationCounts \<lparr>uid = ''u1'', data = ann\<rparr> sample_world_offline) = Inr () \<and>
   fst (requireAuth (getLoginPath sample_world_flaky) sample_world_flaky)
     = Inr (Resolved \<lparr>uid = ''u1'', data = ann\<rparr>) \<and>
   fst (initPageAuth (Some ''products'') sample_world_flaky)
     = Inr (Resolved (Some \<lparr>uid = ''u1'', data = ann\<rparr>)) \<and>
   href (snd (initPageAuth (Some ''products'') sample_world_flaky)) = None"
proof -
  have n: "nextFault sample_world_offline = Some offline"
    by (simp add: nextFault_def)
  have g: "fst (requireAuth (getLoginPath sample_world_flaky) sample_world_flaky)
     = Inr (Resolved \<lparr>uid = ''u1'', data = ann\<rparr>)"
    by (simp add: requireAuth_run nextFault_def)
  show ?thesis
    using n g
      failed_counts_degrade_to_zero
        [of sample_world_offline "''products''" "''createdAt''" 100 "Some 100"
          "\<lparr>uid = ''u1'', data = ann\<rparr>" "Some ''products''"]
      failed_counts_degrade_to_zero
        [of sample_world_flaky "''products''" "''createdAt''" 100 "Some 100"
          "\<lparr>uid = ''u1'', data = ann\<rparr>" "Some ''products''"]
    by simp
qed

section \<open>Deleting a user\<close>

lemma deleteUserData_run:
  "deleteUserData uidIn w =
     (case currentUser w of
        None \<Rightarrow> (Inr (Failure ''Only admins can delete users''), w)
      | Some u \<Rightarrow>
          (let w1 = issue (GetDoc ''users'' u) w in
           if nextFault w \<noteq> None \<or> map_option role (map_of (users w) u) \<noteq> Some ''admin''
           then (Inr (Failure ''Only admins can delete users''), w1)
           else if uidIn = u then (Inr (Failure ''You cannot delete your own account''), w1)
           else (case nextFault w1 of
                   Some e \<Rightarrow> (Inr (Failure (message e)), issue (DeleteDoc ''users'' uidIn) w1)
                 | None \<Rightarrow>
                     (Inr (Success ()),
                      (issue (DeleteDoc ''users'' uidIn) w1)
                        \<lparr>users := AList.delete uidIn (users w)\<rparr>))))"
proof (cases "currentUser w")
  case None
  then show ?thesis
    by (simp add: deleteUserData_def getCurrentUserData_run try_catch_def await_def return_def
        throw_def isAdmin_def)
next
  case (Some u)
  show ?thesis
  proof (cases "nextFault w = None \<and> map_option role (map_of (users w) u) = Some ''admin''")
    case False
    with Some show ?thesis
      by (auto simp: deleteUserData_def getCurrentUserData_run try_catch_def await_def return_def
          throw_def isAdmin_def Let_def split: option.splits)
  next
    case True
    with Some show ?thesis
      by (auto simp: deleteUserData_def getCurrentUserData_run try_catch_def await_def return_def
          throw_def isAdmin_def deleteDoc_users_def backend_def Let_def split: option.splits)
  qed
qed

text \<open>
  Claim C8. \<open>deleteUserData uidIn\<close> never changes the credential records of the identity
  provider, nor who is signed in, nor the view states, nor the tracked collections. In
  the collection \<open>users\<close> it removes the document of \<open>uidIn\<close> or nothing: every other
  profile document stays as it was. When it reports success, the document of \<open>uidIn\<close> is
  gone from \<open>users\<close>, and the credential record is still there.
\<close>

theorem deleteUserData_keeps_credentials:
  "accounts (snd (deleteUserData uidIn w)) = accounts w \<and>
   currentUser (snd (deleteUserData uidIn w)) = currentUser w \<and>
   userPageViews (snd (deleteUserData uidIn w)) = userPageViews w \<and>
   items (snd (deleteUserData uidIn w)) = items w \<and>
   (users (snd (deleteUserData uidIn w)) = users w \<or>
    users (snd (deleteUserData uidIn w)) = AList.delete uidIn (users w)) \<and>
   (\<forall>k. k \<noteq> uidIn \<longrightarrow>
      map_of (users (snd (deleteUserData uidIn w))) k = map_of (users w) k) \<and>
   (fst (deleteUserData uidIn w) = Inr (Success ()) \<longrightarrow>
      users (snd (deleteUserData uidIn w)) = AList.delete uidIn (users w) \<and>
      map_of (users (snd (deleteUserData uidIn w))) uidIn = None)"
  by (auto simp: deleteUserData_run Let_def AList.delete_conv' split: option.splits)

text \<open>
  The administrator \<open>ann\<close> deletes \<open>bob\<close>: his profile document is removed, hers stays, and
  the identity provider still holds the credentials of both.
\<close>

theorem deleteUserData_keeps_credentials_witness:
  "fst (deleteUserData ''u2'' sample_world) = Inr (Success ()) \<and>
   users (snd (deleteUserData ''u2'' sample_world)) = [(''u1'', ann)] \<and>
   map (\<lambda>a. (acc_uid a, acc_email a)) (accounts (snd (deleteUserData ''u2'' sample_world)))
     = [(''u1'', ''ann@shop.test''), (''u2'', ''bob@shop.test'')]"
proof -
  have s: "fst (deleteUserData ''u2'' sample_world) = Inr (Success ())"
    by (simp add: deleteUserData_run nextFault_def Let_def ann_def)
  show ?thesis
    using s deleteUserData_keeps_credentials [of "''u2''" sample_world]
    by (simp add: AList.delete_eq)
qed

section \<open>Logging in\<close>

lemma loginAttempt_run:
  "loginAttempt u p w =
     (let w1 = issue (QueryEq ''users'' ''username'' (toLowerCase u)) w in
      case nextFault w of
        Some e \<Rightarrow> (Inl e, w1)
      | None \<Rightarrow>
          (case filter (\<lambda>(docId, pr). username pr = toLowerCase u) (users w) of
             [] \<Rightarrow> (Inl (Error None ''Invalid username or password''), w1)
           | (docId, userData) # _ \<Rightarrow>
               (let w2 = issue (SignIn (email userData)) w1 in
                case nextFault w1 of
                  Some e \<Rightarrow> (Inl e, w2)
                | None \<Rightarrow>
                    (case find (\<lambda>a. acc_email a = email userData \<and> acc_password a = p) (accounts w) of
                       None \<Rightarrow> (Inl (Error (Some ''auth/invalid-credential'') ''Invalid credential''), w2)
                     | Some a \<Rightarrow>
                         (Inr (Success \<lparr>su_uid = acc_uid a, su_email = email userData,
                                 su_username = username userData,
                                 su_displayName = displayName userData,
                                 su_role = role userData\<rparr>),
                          w2\<lparr>currentUser := Some (acc_uid a)\<rparr>)))))"
  by (simp add: loginAttempt_def query_username_def signInWithEmailAndPassword_def backend_def
      await_def return_def throw_def Let_def split: option.splits list.splits)

lemma loginWithUsername_alt:
  "loginWithUsername u p w =
     (case fst (loginAttempt u p w) of
        Inl e \<Rightarrow> (Inr (Failure (loginMessage e)), snd (loginAttempt u p w))
      | Inr r \<Rightarrow> (Inr r, snd (loginAttempt u p w)))"
  by (simp add: loginWithUsername_def try_catch_alt return_def split: sum.splits)

text \<open>
  Claim C9. \<open>loginWithUsername\<close> never rejects. Every error thrown in its \<open>try\<close> block gives
  the result \<open>{ success: false, error: message }\<close>, where the message is
  \<open>Too many failed attempts. Please try again later.\<close> for an error with the code
  \<open>auth/too-many-requests\<close> and \<open>Invalid username or password\<close> for every other error; a
  failure result never carries another message. The failures are: the username lookup
  throws; no profile has the username; the sign-in call throws; the identity provider
  refuses the credentials. In the one remaining case the result is the success, with the
  user that was found.
\<close>

theorem loginWithUsername_never_rejects:
  "(\<forall>e. fst (loginWithUsername u p w) \<noteq> Inl e) \<and>
   (\<forall>e. fst (loginAttempt u p w) = Inl e \<longrightarrow>
      fst (loginWithUsername u p w) =
        Inr (Failure (if code e = Some ''auth/too-many-requests''
                      then ''Too many failed attempts. Please try again later.''
                      else ''Invalid username or password''))) \<and>
   (\<forall>msg. fst (loginWithUsername u p w) = Inr (Failure msg) \<longrightarrow>
      (\<exists>e. fst (loginAttempt u p w) = Inl e) \<and>
      (msg = ''Too many failed attempts. Please try again later.'' \<or>
       msg = ''Invalid username or password'')) \<and>
   (\<forall>e. nextFault w = Some e \<longrightarrow>
      fst (loginWithUsername u p w) =
        Inr (Failure (if code e = Some ''auth/too-many-requests''
                      then ''Too many failed attempts. Please try again later.''
                      else ''Invalid username or password''))) \<and>
   (nextFault w = None \<and> filter (\<lambda>(docId, pr). username pr = toLowerCase u) (users w) = [] \<longrightarrow>
      fst (loginWithUsername u p w) = Inr (Failure ''Invalid username or password'')) \<and>
   (\<forall>docId userData rest e.
      nextFault w = None \<and>
      filter (\<lambda>(docId, pr). username pr = toLowerCase u) (users w) = (docId, userData) # rest \<and>
      nextFault (issue (QueryEq ''users'' ''username'' (toLowerCase u)) w) = Some e \<longrightarrow>
      fst (loginWithUsername u p w) =
        Inr (Failure (if code e = Some ''auth/too-many-requests''
                      then ''Too many failed attempts. Please try again later.''
                      else ''Invalid username or password''))) \<and>
   (\<forall>docId userData rest.
      nextFault w = None \<and>
      filter (\<lambda>(docId, pr). username pr = toLowerCase u) (users w) = (docId, userData) # rest \<and>
      nextFault (issue (QueryEq ''users'' ''username'' (toLowerCase u)) w) = None \<and>
      find (\<lambda>a. acc_email a = email userData \<and> acc_password a = p) (accounts w) = None \<longrightarrow>
      fst (loginWithUsername u p w) = Inr (Failure ''Invalid username or password'')) \<and>
   (\<forall>docId userData rest a.
      nextFault w = None \<and>
      filter (\<lambda>(docId, pr). username pr = toLowerCase u) (users w) = (docId, userData) # rest \<and>
      nextFault (issue (QueryEq ''users'' ''username'' (toLowerCase u)) w) = None \<and>
      find (\<lambda>a. acc_email a = email userData \<and> acc_password a = p) (accounts w) = Some a \<longrightarrow>
      fst (loginWithUsername u p w) =
        Inr (Success \<lparr>su_uid = acc_uid a, su_email = email userData,
               su_username = username userData, su_displayName = displayName userData,
               su_role = role userData\<rparr>))"
  apply (simp add: loginWithUsername_alt loginMessage_def split: sum.splits)
  apply (auto simp: loginAttempt_run Let_def split: option.splits list.splits)
  done

text \<open>
  In the sample state: an unknown username, a wrong password and a lookup with the
  network down give \<open>Invalid username or password\<close>; a sign-in that the provider answers
  with \<open>auth/too-many-requests\<close> gives the rate-limit message. The user stored as \<open>eva\<close>
  with an acute accent on the \<open>e\<close> signs in with her name typed in capitals.
\<close>

theorem loginWithUsername_never_rejects_witness:
  "fst (loginWithUsername ''carol'' ''secret1'' sample_world)
     = Inr (Failure ''Invalid username or password'') \<and>
   fst (loginWithUsername ''ann'' ''guess'' sample_world)
     = Inr (Failure ''Invalid username or password'') \<and>
   fst (loginWithUsername ''ann'' ''secret1'' sample_world_offline)
     = Inr (Failure ''Invalid username or password'') \<and>
   fst (loginWithUsername ''ann'' ''guess''
          (sample_world\<lparr>faults := [None, Some (Error (Some ''auth/too-many-requests'') ''Blocked'')]\<rparr>))
     = Inr (Failure ''Too many failed attempts. Please try again later.'') \<and>
   fst (loginWithUsername [CHR 0xC9, CHR ''V'', CHR ''A''] ''secret5'' sample_world_eva)
     = Inr (Success \<lparr>su_uid = ''u5'', su_email = ''eva@shop.test'',
              su_username = [CHR 0xE9, CHR ''v'', CHR ''a''], su_displayName = ''Eva'',
              su_role = ''staff''\<rparr>)"
proof -
  let ?limited = "sample_world\<lparr>faults := [None, Some (Error (Some ''auth/too-many-requests'') ''Blocked'')]\<rparr>"
  have lower: "toLowerCase ''carol'' = ''carol''" "toLowerCase ''ann'' = ''ann''"
    "toLowerCase [CHR 0xC9, CHR ''V'', CHR ''A''] = [CHR 0xE9, CHR ''v'', CHR ''a'']"
    by (simp_all add: toLowerCase_def lowerChar_def upperLetters_def lowerLetters_def)
  have n: "nextFault sample_world = None" "nextFault sample_world_offline = Some offline"
    "nextFault ?limited = None"
    "nextFault (issue (QueryEq ''users'' ''username'' ''ann'') sample_world) = None"
    "nextFault (issue (QueryEq ''users'' ''username'' ''ann'') ?limited)
       = Some (Error (Some ''auth/too-many-requests'') ''Blocked'')"
    "nextFault sample_world_eva = None"
    "nextFault (issue (QueryEq ''users'' ''username'' [CHR 0xE9, CHR ''v'', CHR ''a''])
       sample_world_eva) = None"
    by (simp_all add: nextFault_def sample_world_eva_def)
  have e: "users sample_world_eva = [(''u1'', ann), (''u2'', bob), (''u5'', eva)]"
    "accounts sample_world_eva =
       [\<lparr>acc_uid = ''u1'', acc_email = ''ann@shop.test'', acc_password = ''secret1''\<rparr>,
        \<lparr>acc_uid = ''u2'', acc_email = ''bob@shop.test'', acc_password = ''secret2''\<rparr>,
        \<lparr>acc_uid = ''u5'', acc_email = ''eva@shop.test'', acc_password = ''secret5''\<rparr>]"
    by (simp_all add: sample_world_eva_def)
  show ?thesis
    using n
      loginWithUsername_never_rejects [of "''carol''" "''secret1''" sample_world]
      loginWithUsername_never_rejects [of "''ann''" "''guess''" sample_world]
      loginWithUsername_never_rejects [of "''ann''" "''secret1''" sample_world_offline]
      loginWithUsername_never_rejects [of "''ann''" "''guess''" ?limited]
      loginWithUsername_never_rejects
        [of "[CHR 0xC9, CHR ''V'', CHR ''A'']" "''secret5''" sample_world_eva]
    by (simp add: lower e ann_def bob_def eva_def offline_def)
qed

section \<open>Saving the profile\<close>

lemma callsOf_same: "snd (m w) = w \<Longrightarrow> callsOf m w = []"
  by (simp add: callsOf_def)

lemma saveProfileUpdate_unchanged:
  "saveProfileUpdate cud dn em cp np False False w =
     (let w1 = issue (UpdateDoc ''users'' (uid cud)) w in
      case nextFault w of
        Some e \<Rightarrow> (Inr (UpdateFailed (saveProfileMessage e)), w1)
      | None \<Rightarrow>
          (case map_of (users w) (uid cud) of
             None \<Rightarrow> (Inr (UpdateFailed ''Failed to update profile''), w1)
           | Some p \<Rightarrow>
               (Inr Saved,
                w1\<lparr>users := AList.update (uid cud) (p\<lparr>displayName := dn, email := toLowerCase em\<rparr>) (users w),
                   currentUserData := Some (cud\<lparr>data := (data cud)\<lparr>displayName := dn, email := toLowerCase em\<rparr>\<rparr>)\<rparr>)))"
  by (simp add: saveProfileUpdate_def try_catch_def await_def return_def updateDoc_users_def
      backend_def Let_def saveProfileMessage_def split: option.splits)

text \<open>
  Claim C4, as stated: whenever the new password and the confirmation entered differ,
  \<open>saveProfile\<close> rejects the save with a validation error before any network call. This
  fails when the new-password field is left empty: the confirmation is then not looked
  at. With only a new display name and a stray entry in the confirmation field the
  profile is saved, by a call that updates the profile document.
\<close>

theorem saveProfile_stray_confirmation_saves:
  "profileNewPassword form_stray_confirmation \<noteq> profileConfirmPassword form_stray_confirmation \<and>
   fst (saveProfile form_stray_confirmation sample_world) = Inr Saved \<and>
   callsOf (saveProfile form_stray_confirmation) sample_world = [UpdateDoc ''users'' ''u1'']"
  by (simp add: saveProfile_def Let_def return_def saveProfileUpdate_unchanged callsOf_def
      form_stray_confirmation_def trim_def isWhiteSpace_def ann_def nextFault_def
      toLowerCase_def lowerChar_def upperLetters_def lowerLetters_def)

text \<open>
  Claim C4, amended: whenever a new password is entered and the confirmation differs
  from it, \<open>saveProfile\<close> (on a page where \<open>initPageAuth\<close> has stored the user) shows a
  validation error and returns before any network call: nothing of the state changes.
\<close>

theorem saveProfile_rejects_mismatch:
  assumes "profileNewPassword form \<noteq> []"
    and "profileNewPassword form \<noteq> profileConfirmPassword form"
    and "currentUserData w = Some cud"
  shows "(\<exists>msg. fst (saveProfile form w) = Inr (ValidationError msg)) \<and>
         snd (saveProfile form w) = w \<and>
         callsOf (saveProfile form) w = []"
proof -
  have "(\<exists>msg. fst (saveProfile form w) = Inr (ValidationError msg)) \<and> snd (saveProfile form w) = w"
    using assms by (simp add: saveProfile_def Let_def return_def)
  then show ?thesis
    by (simp add: callsOf_same)
qed

text \<open>
  \<open>ann\<close> enters her current password, a new password and a different confirmation: the save
  is rejected and no call is issued.
\<close>

theorem saveProfile_rejects_mismatch_witness:
  "profileNewPassword form_mismatch \<noteq> [] \<and>
   profileNewPassword form_mismatch \<noteq> profileConfirmPassword form_mismatch \<and>
   currentUserData sample_world = Some \<lparr>uid = ''u1'', data = ann\<rparr> \<and>
   fst (saveProfile form_mismatch sample_world) = Inr (ValidationError ''New passwords do not match'') \<and>
   callsOf (saveProfile form_mismatch) sample_world = []"
proof -
  have h: "profileNewPassword form_mismatch \<noteq> []"
    "profileNewPassword form_mismatch \<noteq> profileConfirmPassword form_mismatch"
    "currentUserData sample_world = Some \<lparr>uid = ''u1'', data = ann\<rparr>"
    by (simp_all add: form_mismatch_def)
  have m: "fst (saveProfile form_mismatch sample_world)
      = Inr (ValidationError ''New passwords do not match'')"
    by (simp add: saveProfile_def Let_def return_def form_mismatch_def trim_def isWhiteSpace_def)
  show ?thesis
    using h m saveProfile_rejects_mismatch [OF h] by simp
qed

lemma saveProfile_email_unchanged:
  assumes "currentUserData w = Some cud"
    and "toLowerCase (trim (profileEmail form)) = toLowerCase (email (data cud))"
    and "profileNewPassword form = []"
  shows "Reauthenticate \<notin> set (callsOf (saveProfile form) w) \<and>
         (callsOf (saveProfile form) w = [] \<or>
          callsOf (saveProfile form) w = [UpdateDoc ''users'' (uid cud)]) \<and>
         (trim (profileDisplayName form) \<noteq> [] \<and> trim (profileEmail form) \<noteq> [] \<longrightarrow>
            callsOf (saveProfile form) w = [UpdateDoc ''users'' (uid cud)])"
  using assms
  by (simp add: saveProfile_def Let_def return_def saveProfileUpdate_unchanged callsOf_def
      split: option.splits)

text \<open>
  Claim C5. When the email entered equals the stored email and the new-password field is
  empty, \<open>saveProfile\<close> never calls the re-authentication operation. The only network call
  it can issue is the update of the profile document, and it issues exactly that call
  whenever the display name and the email pass the check for blank fields, which comes
  first. The email entered is the value that \<open>saveProfile\<close> reads from the field, that is,
  with the white space around it removed; so the claim covers the field that holds the
  stored email letter for letter, the stored email having no white space around it.
\<close>

theorem saveProfile_no_reauthentication:
  assumes "currentUserData w = Some cud"
    and "trim (profileEmail form) = email (data cud)"
    and "profileNewPassword form = []"
  shows "Reauthenticate \<notin> set (callsOf (saveProfile form) w) \<and>
         (callsOf (saveProfile form) w = [] \<or>
          callsOf (saveProfile form) w = [UpdateDoc ''users'' (uid cud)]) \<and>
         (trim (profileDisplayName form) \<noteq> [] \<and> trim (profileEmail form) \<noteq> [] \<longrightarrow>
            callsOf (saveProfile form) w = [UpdateDoc ''users'' (uid cud)])"
  using assms saveProfile_email_unchanged [of w cud form] by simp

text \<open>
  \<open>ann\<close> changes her display name only, the email field holding her stored email: the one
  call updates her profile document. When she leaves only a no-break space as display
  name, the save stops at the check for blank fields and no call is issued.
\<close>

theorem saveProfile_no_reauthentication_witness:
  "currentUserData sample_world = Some \<lparr>uid = ''u1'', data = ann\<rparr> \<and>
   profileEmail form_rename = email ann \<and>
   trim (profileEmail form_rename) = email ann \<and>
   profileNewPassword form_rename = [] \<and>
   Reauthenticate \<notin> set (callsOf (saveProfile form_rename) sample_world) \<and>
   callsOf (saveProfile form_rename) sample_world = [UpdateDoc ''users'' ''u1''] \<and>
   fst (saveProfile form_rename sample_world) = Inr Saved \<and>
   trim (profileEmail form_blank_name) = email ann \<and>
   profileNewPassword form_blank_name = [] \<and>
   trim (profileDisplayName form_blank_name) = [] \<and>
   fst (saveProfile form_blank_name sample_world)
     = Inr (ValidationError ''Display name is required'') \<and>
   callsOf (saveProfile form_blank_name) sample_world = []"
proof -
  have h: "currentUserData sample_world = Some \<lparr>uid = ''u1'', data = ann\<rparr>"
    "trim (profileEmail form_rename) = email (data \<lparr>uid = ''u1'', data = ann\<rparr>)"
    "profileNewPassword form_rename = []"
    by (simp_all add: form_rename_def trim_def isWhiteSpace_def ann_def)
  have b: "trim (profileEmail form_blank_name) = email (data \<lparr>uid = ''u1'', data = ann\<rparr>)"
    "profileNewPassword form_blank_name = []"
    by (simp_all add: form_blank_name_def trim_def isWhiteSpace_def ann_def)
  have t: "profileEmail form_rename = email ann"
    "trim (profileDisplayName form_rename) \<noteq> []" "trim (profileEmail form_rename) \<noteq> []"
    "trim (profileDisplayName form_blank_name) = []"
    by (simp_all add: form_rename_def form_blank_name_def trim_def isWhiteSpace_def ann_def)
  have lower: "toLowerCase ''ann@shop.test'' = ''ann@shop.test''"
    by (simp add: toLowerCase_def lowerChar_def upperLetters_def lowerLetters_def)
  have r: "fst (saveProfile form_rename sample_world) = Inr Saved"
    "fst (saveProfile form_blank_name sample_world)
       = Inr (ValidationError ''Display name is required'')"
    "snd (saveProfile form_blank_name sample_world) = sample_world"
    by (simp_all add: saveProfile_def Let_def return_def saveProfileUpdate_unchanged
        form_rename_def form_blank_name_def trim_def isWhiteSpace_def ann_def nextFault_def lower)
  show ?thesis
    using h b t r saveProfile_no_reauthentication [OF h]
      saveProfile_no_reauthentication [OF h(1) b]
    by (simp add: callsOf_def)
qed

section \<open>Usernames in lower case\<close>

lemma list_all_update:
  "list_all P xs \<Longrightarrow> P (k, v) \<Longrightarrow> list_all P (AList.update k v xs)"
  by (induction xs) auto

lemma list_all_delete: "list_all P xs \<Longrightarrow> list_all P (AList.delete k xs)"
  by (simp add: AList.delete_eq list_all_iff)

lemma isUsernameTaken_run:
  "isUsernameTaken u w =
     (case nextFault w of
        Some e \<Rightarrow> Inl e
      | None \<Rightarrow> Inr (filter (\<lambda>(docId, pr). username pr = toLowerCase u) (users w) \<noteq> []),
      issue (QueryEq ''users'' ''username'' (toLowerCase u)) w)"
  by (simp add: isUsernameTaken_def query_username_def backend_def await_def return_def
      split: option.splits)

lemma createUser_effect:
  "(\<exists>msg. fst (createUser u e p r d w) = Inr (Failure msg) \<and>
      users (snd (createUser u e p r d w)) = users w) \<or>
   (\<exists>newUid adminUid.
      fst (createUser u e p r d w) =
        Inr (Success \<lparr>su_uid = newUid, su_email = toLowerCase e, su_username = toLowerCase u,
               su_displayName = d, su_role = r\<rparr>) \<and>
      users (snd (createUser u e p r d w)) =
        AList.update newUid
          \<lparr>username = toLowerCase u, email = toLowerCase e, role = r, displayName = d,
           createdAt = now w, createdBy = adminUid\<rparr> (users w))"
  by (auto simp: createUser_def try_catch_alt await_alt isUsernameTaken_run getCurrentUserData_run
      createUserWithEmailAndPassword_def setDoc_users_def backend_def return_def throw_def
      split: option.splits sum.splits)

lemma initializeFirstAdmin_effect:
  "(\<exists>msg. fst (initializeFirstAdmin u e p d w) = Inr (Failure msg) \<and>
      users (snd (initializeFirstAdmin u e p d w)) = users w) \<or>
   (\<exists>newUid.
      fst (initializeFirstAdmin u e p d w) = Inr (Success ''First admin created successfully'') \<and>
      users w = [] \<and>
      users (snd (initializeFirstAdmin u e p d w)) =
        [(newUid, \<lparr>username = toLowerCase u, email = toLowerCase e, role = ''admin'',
           displayName = d, createdAt = now w, createdBy = ''system''\<rparr>)])"
  by (auto simp: initializeFirstAdmin_def try_catch_alt await_alt getDocs_users_def
      createUserWithEmailAndPassword_def setDoc_users_def backend_def return_def throw_def
      split: option.splits sum.splits)

lemma createUser_stores_lower:
  assumes "fst (createUser u e p r d w) = Inr (Success su)"
  shows "su_username su = toLowerCase u \<and>
         (\<exists>pr. map_of (users (snd (createUser u e p r d w))) (su_uid su) = Some pr \<and>
               username pr = toLowerCase u)"
  using createUser_effect [of u e p r d w] assms
  by (auto simp: AList.update_conv')

lemma initializeFirstAdmin_stores_lower:
  assumes "fst (initializeFirstAdmin u e p d w) = Inr (Success m)"
  shows "\<exists>newUid pr. users (snd (initializeFirstAdmin u e p d w)) = [(newUid, pr)] \<and>
           username pr = toLowerCase u"
  using initializeFirstAdmin_effect [of u e p d w] assms by auto

lemma createUser_usernamesLower:
  assumes "usernamesLower w"
  shows "usernamesLower (snd (createUser u e p r d w))"
  using createUser_effect [of u e p r d w] assms
  by (auto simp: usernamesLower_def toLowerCase_idem intro!: list_all_update)

lemma initializeFirstAdmin_usernamesLower:
  assumes "usernamesLower w"
  shows "usernamesLower (snd (initializeFirstAdmin u e p d w))"
  using initializeFirstAdmin_effect [of u e p d w] assms
  by (auto simp: usernamesLower_def toLowerCase_idem)

lemma reauth_users: "users (snd (reauthenticateWithCredential us e p w)) = users w"
  by (simp add: reauthenticateWithCredential_def backend_def split: option.splits)

lemma updateEmail_users: "users (snd (updateEmail us e w)) = users w"
  by (simp add: updateEmail_def backend_def split: option.splits)

lemma updatePassword_users: "users (snd (updatePassword us p w)) = users w"
  by (simp add: updatePassword_def backend_def split: option.splits)

lemma updateDoc_users_effect:
  "users (snd (updateDoc_users k g w)) = users w \<or>
   (\<exists>p. map_of (users w) k = Some p \<and> users (snd (updateDoc_users k g w)) = AList.update k (g p) (users w))"
  by (simp add: updateDoc_users_def backend_def split: option.splits)

lemma saveProfileUpdate_users:
  "users (snd (saveProfileUpdate cud dn em cp np ec pc w)) = users w \<or>
   (\<exists>p. map_of (users w) (uid cud) = Some p \<and>
      users (snd (saveProfileUpdate cud dn em cp np ec pc w)) =
        AList.update (uid cud) (p\<lparr>displayName := dn, email := toLowerCase em\<rparr>) (users w))"
proof -
  let ?g = "\<lambda>p. p\<lparr>displayName := dn, email := toLowerCase em\<rparr>"
  have "\<exists>w3. users w3 = users w \<and>
      (users (snd (saveProfileUpdate cud dn em cp np ec pc w)) = users w \<or>
       users (snd (saveProfileUpdate cud dn em cp np ec pc w))
         = users (snd (updateDoc_users (uid cud) ?g w3)))"
    by (cases ec; cases pc;
        simp add: saveProfileUpdate_def try_catch_alt await_alt Let_def return_def
          reauth_users updateEmail_users updatePassword_users split: sum.splits;
        metis reauth_users updateEmail_users updatePassword_users)
  then obtain w3 where w3: "users w3 = users w"
    "users (snd (saveProfileUpdate cud dn em cp np ec pc w)) = users w \<or>
     users (snd (saveProfileUpdate cud dn em cp np ec pc w))
       = users (snd (updateDoc_users (uid cud) ?g w3))"
    by blast
  then show ?thesis
    using updateDoc_users_effect [of "uid cud" ?g w3] by auto
qed

lemma saveProfileUpdate_usernamesLower:
  assumes "usernamesLower w"
  shows "usernamesLower (snd (saveProfileUpdate cud dn em cp np ec pc w))"
  using saveProfileUpdate_users [of cud dn em cp np ec pc w]
proof
  assume "users (snd (saveProfileUpdate cud dn em cp np ec pc w)) = users w"
  with assms show ?thesis
    by (simp add: usernamesLower_def)
next
  assume "\<exists>p. map_of (users w) (uid cud) = Some p \<and>
      users (snd (saveProfileUpdate cud dn em cp np ec pc w)) =
        AList.update (uid cud) (p\<lparr>displayName := dn, email := toLowerCase em\<rparr>) (users w)"
  then obtain p where p: "map_of (users w) (uid cud) = Some p"
    and u: "users (snd (saveProfileUpdate cud dn em cp np ec pc w)) =
        AList.update (uid cud) (p\<lparr>displayName := dn, email := toLowerCase em\<rparr>) (users w)"
    by blast
  from p have "(uid cud, p) \<in> set (users w)"
    by (rule map_of_SomeD)
  with assms have "toLowerCase (username p) = username p"
    by (auto simp: usernamesLower_def list_all_iff)
  with assms u show ?thesis
    by (simp add: usernamesLower_def list_all_update)
qed

lemma saveProfile_usernamesLower:
  "usernamesLower w \<Longrightarrow> usernamesLower (snd (saveProfile form w))"
  by (simp add: saveProfile_def Let_def return_def throw_def saveProfileUpdate_usernamesLower
      split: option.splits)

lemma deleteUserData_usernamesLower:
  "usernamesLower w \<Longrightarrow> usernamesLower (snd (deleteUserData k w))"
  by (auto simp: deleteUserData_run usernamesLower_def list_all_delete Let_def split: option.splits)

lemma loginWithUsername_lower: "loginWithUsername (toLowerCase u) p w = loginWithUsername u p w"
  by (simp add: loginWithUsername_def loginAttempt_def toLowerCase_idem)

lemma isUsernameTaken_lower: "isUsernameTaken (toLowerCase u) w = isUsernameTaken u w"
  by (simp add: isUsernameTaken_def toLowerCase_idem)

lemma loginWithUsername_first_call:
  "\<exists>cs. callsOf (loginWithUsername u p) w = QueryEq ''users'' ''username'' (toLowerCase u) # cs"
  by (simp add: callsOf_def loginWithUsername_alt loginAttempt_run Let_def
      split: sum.splits option.splits list.splits)

lemma initializeFirstAdmin_success:
  assumes "users w = []" and "noFaults 3 w"
    and "find (\<lambda>a. acc_email a = e) (accounts w) = None" and "6 \<le> length p"
  shows "fst (initializeFirstAdmin u e p d w) = Inr (Success ''First admin created successfully'') \<and>
         users (snd (initializeFirstAdmin u e p d w)) =
           [(shd (uid_supply w),
             \<lparr>username = toLowerCase u, email = toLowerCase e, role = ''admin'',
              displayName = d, createdAt = now w, createdBy = ''system''\<rparr>)]"
proof -
  have n: "noFaults (Suc (Suc (Suc 0))) w"
    using assms(2) by (simp add: numeral_3_eq_3)
  show ?thesis
    using assms(1,3,4)
    by (simp add: initializeFirstAdmin_def try_catch_alt await_alt getDocs_users_def
        createUserWithEmailAndPassword_def setDoc_users_def backend_def return_def throw_def
        issue_def nextFault_first [OF n] nextFault_second [OF n] nextFault_third [OF n])
qed

lemma createUser_success:
  assumes "u \<noteq> []" "e \<noteq> []" "p \<noteq> []" "r \<noteq> []" "d \<noteq> []"
    and "noFaults 4 w"
    and "filter (\<lambda>(docId, pr). username pr = toLowerCase u) (users w) = []"
    and "currentUser w = Some adminUid"
    and "map_of (users w) adminUid = Some adminDoc" and "role adminDoc = ''admin''"
    and "find (\<lambda>a. acc_email a = e) (accounts w) = None" and "6 \<le> length p"
  shows "fst (createUser u e p r d w) =
           Inr (Success \<lparr>su_uid = shd (uid_supply w), su_email = toLowerCase e,
                  su_username = toLowerCase u, su_displayName = d, su_role = r\<rparr>) \<and>
         users (snd (createUser u e p r d w)) =
           AList.update (shd (uid_supply w))
             \<lparr>username = toLowerCase u, email = toLowerCase e, role = r, displayName = d,
              createdAt = now w, createdBy = adminUid\<rparr> (users w)"
proof -
  have n: "noFaults (Suc (Suc (Suc (Suc 0)))) w"
    using assms(6) by (simp add: eval_nat_numeral)
  show ?thesis
    using assms(1-5,7-12)
    by (simp add: createUser_def try_catch_alt await_alt isUsernameTaken_run
        getCurrentUserData_run isAdmin_def
        createUserWithEmailAndPassword_def setDoc_users_def backend_def return_def throw_def
        issue_def nextFault_first [OF n] nextFault_second [OF n] nextFault_third [OF n]
        nextFault_fourth [OF n])
qed

text \<open>
  Claim C10. Usernames are put in lower case wherever they are stored or looked up.
  \<^item> \<open>loginWithUsername\<close> and \<open>isUsernameTaken\<close> send the query with the username in lower
    case, so two spellings with the same lower-case form behave alike, and
    \<open>isUsernameTaken\<close> answers whether a profile is stored under the lower-case form.
  \<^item> \<open>createUser\<close> and \<open>initializeFirstAdmin\<close> store the username in lower case: whenever
    they report success the stored profile has it, and they do succeed, storing that
    profile, when their checks pass and the backend answers.
  \<^item> So once every stored username is in lower case, it stays so after each of the
    functions that write to the collection \<open>users\<close>: \<open>createUser\<close>, \<open>initializeFirstAdmin\<close>,
    \<open>saveProfile\<close> and \<open>deleteUserData\<close>.
\<close>

theorem usernames_lower_case:
  "(toLowerCase u = toLowerCase u' \<longrightarrow>
      loginWithUsername u p w = loginWithUsername u' p w \<and>
      isUsernameTaken u w = isUsernameTaken u' w) \<and>
   (\<exists>cs. callsOf (loginWithUsername u p) w = QueryEq ''users'' ''username'' (toLowerCase u) # cs) \<and>
   callsOf (isUsernameTaken u) w = [QueryEq ''users'' ''username'' (toLowerCase u)] \<and>
   (nextFault w = None \<longrightarrow>
      fst (isUsernameTaken u w) =
        Inr (filter (\<lambda>(docId, pr). username pr = toLowerCase u) (users w) \<noteq> [])) \<and>
   (\<forall>su. fst (createUser u e p r d w) = Inr (Success su) \<longrightarrow>
      su_username su = toLowerCase u \<and>
      (\<exists>pr. map_of (users (snd (createUser u e p r d w))) (su_uid su) = Some pr \<and>
            username pr = toLowerCase u)) \<and>
   (u \<noteq> [] \<and> e \<noteq> [] \<and> p \<noteq> [] \<and> r \<noteq> [] \<and> d \<noteq> [] \<and> noFaults 4 w \<and>
    filter (\<lambda>(docId, pr). username pr = toLowerCase u) (users w) = [] \<and>
    currentUser w = Some adminUid \<and> map_of (users w) adminUid = Some adminDoc \<and>
    role adminDoc = ''admin'' \<and>
    find (\<lambda>a. acc_email a = e) (accounts w) = None \<and> 6 \<le> length p \<longrightarrow>
      fst (createUser u e p r d w) =
        Inr (Success \<lparr>su_uid = shd (uid_supply w), su_email = toLowerCase e,
               su_username = toLowerCase u, su_displayName = d, su_role = r\<rparr>) \<and>
      users (snd (createUser u e p r d w)) =
        AList.update (shd (uid_supply w))
          \<lparr>username = toLowerCase u, email = toLowerCase e, role = r, displayName = d,
           createdAt = now w, createdBy = adminUid\<rparr> (users w)) \<and>
   (\<forall>m. fst (initializeFirstAdmin u e p d w) = Inr (Success m) \<longrightarrow>
      (\<exists>newUid pr. users (snd (initializeFirstAdmin u e p d w)) = [(newUid, pr)] \<and>
            username pr = toLowerCase u)) \<and>
   (users w = [] \<and> noFaults 3 w \<and> find (\<lambda>a. acc_email a = e) (accounts w) = None \<and>
    6 \<le> length p \<longrightarrow>
      fst (initializeFirstAdmin u e p d w) = Inr (Success ''First admin created successfully'') \<and>
      users (snd (initializeFirstAdmin u e p d w)) =
        [(shd (uid_supply w),
          \<lparr>username = toLowerCase u, email = toLowerCase e, role = ''admin'',
           displayName = d, createdAt = now w, createdBy = ''system''\<rparr>)]) \<and>
   (usernamesLower w \<longrightarrow>
      usernamesLower (snd (createUser u e p r d w)) \<and>
      usernamesLower (snd (initializeFirstAdmin u e p d w)) \<and>
      usernamesLower (snd (saveProfile form w)) \<and>
      usernamesLower (snd (deleteUserData k w)))"
proof -
  have c1: "toLowerCase u = toLowerCase u' \<longrightarrow>
      loginWithUsername u p w = loginWithUsername u' p w \<and>
      isUsernameTaken u w = isUsernameTaken u' w"
    by (metis loginWithUsername_lower isUsernameTaken_lower)
  have c2: "\<exists>cs. callsOf (loginWithUsername u p) w
      = QueryEq ''users'' ''username'' (toLowerCase u) # cs"
    by (rule loginWithUsername_first_call)
  have c3: "callsOf (isUsernameTaken u) w = [QueryEq ''users'' ''username'' (toLowerCase u)]"
    by (simp add: callsOf_def isUsernameTaken_run)
  have c4: "nextFault w = None \<longrightarrow>
      fst (isUsernameTaken u w) =
        Inr (filter (\<lambda>(docId, pr). username pr = toLowerCase u) (users w) \<noteq> [])"
    by (simp add: isUsernameTaken_run)
  have c5: "\<forall>su. fst (createUser u e p r d w) = Inr (Success su) \<longrightarrow>
      su_username su = toLowerCase u \<and>
      (\<exists>pr. map_of (users (snd (createUser u e p r d w))) (su_uid su) = Some pr \<and>
            username pr = toLowerCase u)"
    using createUser_stores_lower [of u e p r d w] by blast
  have c6: "u \<noteq> [] \<and> e \<noteq> [] \<and> p \<noteq> [] \<and> r \<noteq> [] \<and> d \<noteq> [] \<and> noFaults 4 w \<and>
    filter (\<lambda>(docId, pr). username pr = toLowerCase u) (users w) = [] \<and>
    currentUser w = Some adminUid \<and> map_of (users w) adminUid = Some adminDoc \<and>
    role adminDoc = ''admin'' \<and>
    find (\<lambda>a. acc_email a = e) (accounts w) = None \<and> 6 \<le> length p \<longrightarrow>
      fst (createUser u e p r d w) =
        Inr (Success \<lparr>su_uid = shd (uid_supply w), su_email = toLowerCase e,
               su_username = toLowerCase u, su_displayName = d, su_role = r\<rparr>) \<and>
      users (snd (createUser u e p r d w)) =
        AList.update (shd (uid_supply w))
          \<lparr>username = toLowerCase u, email = toLowerCase e, role = r, displayName = d,
           createdAt = now w, createdBy = adminUid\<rparr> (users w)"
    using createUser_success [of u e p r d w adminUid adminDoc] by blast
  have c7: "\<forall>m. fst (initializeFirstAdmin u e p d w) = Inr (Success m) \<longrightarrow>
      (\<exists>newUid pr. users (snd (initializeFirstAdmin u e p d w)) = [(newUid, pr)] \<and>
            username pr = toLowerCase u)"
    using initializeFirstAdmin_stores_lower [of u e p d w] by blast
  have c8: "users w = [] \<and> noFaults 3 w \<and> find (\<lambda>a. acc_email a = e) (accounts w) = None \<and>
    6 \<le> length p \<longrightarrow>
      fst (initializeFirstAdmin u e p d w) = Inr (Success ''First admin created successfully'') \<and>
      users (snd (initializeFirstAdmin u e p d w)) =
        [(shd (uid_supply w),
          \<lparr>username = toLowerCase u, email = toLowerCase e, role = ''admin'',
           displayName = d, createdAt = now w, createdBy = ''system''\<rparr>)]"
    using initializeFirstAdmin_success [of w e p u d] by blast
  have c9: "usernamesLower w \<longrightarrow>
      usernamesLower (snd (createUser u e p r d w)) \<and>
      usernamesLower (snd (initializeFirstAdmin u e p d w)) \<and>
      usernamesLower (snd (saveProfile form w)) \<and>
      usernamesLower (snd (deleteUserData k w))"
    using createUser_usernamesLower [of w u e p r d]
      initializeFirstAdmin_usernamesLower [of w u e p d]
      saveProfile_usernamesLower [of w form]
      deleteUserData_usernamesLower [of w k]
    by blast
  show ?thesis
    by (intro conjI) (rule c1 c2 c3 c4 c5 c6 c7 c8 c9)+
qed

text \<open>
  In the sample state every stored username is in lower case, the accented \<open>eva\<close>
  included, while the same name with a capital \<open>E\<close> would not be. \<open>ann\<close> can sign in as
  \<open>ANN\<close>; the usernames \<open>Bob\<close> and \<open>EVA\<close> are taken; when \<open>ann\<close> creates the user \<open>Carol\<close>, the
  profile is stored and returned under \<open>carol\<close>; and on an empty store
  \<open>initializeFirstAdmin\<close> stores the first administrator \<open>Root\<close> under \<open>root\<close>.
\<close>

theorem usernames_lower_case_witness:
  "usernamesLower sample_world_eva \<and>
   \<not> usernamesLower (sample_world\<lparr>users := [(''u5'', eva\<lparr>username := [CHR 0xC9, CHR ''v'', CHR ''a'']\<rparr>)]\<rparr>) \<and>
   toLowerCase ''ANN'' = toLowerCase ''ann'' \<and>
   loginWithUsername ''ANN'' ''secret1'' sample_world
     = loginWithUsername ''ann'' ''secret1'' sample_world \<and>
   (\<exists>su. fst (loginWithUsername ''ANN'' ''secret1'' sample_world) = Inr (Success su)) \<and>
   fst (isUsernameTaken ''Bob'' sample_world) = Inr True \<and>
   fst (isUsernameTaken [CHR 0xC9, CHR ''V'', CHR ''A''] sample_world_eva) = Inr True \<and>
   callsOf (isUsernameTaken [CHR 0xC9, CHR ''V'', CHR ''A'']) sample_world_eva
     = [QueryEq ''users'' ''username'' [CHR 0xE9, CHR ''v'', CHR ''a'']] \<and>
   fst (createUser ''Carol'' ''Carol@Shop.Test'' ''secret3'' ''staff'' ''Carol'' sample_world)
     = Inr (Success \<lparr>su_uid = ''u3'', su_email = ''carol@shop.test'', su_username = ''carol'',
              su_displayName = ''Carol'', su_role = ''staff''\<rparr>) \<and>
   users (snd (createUser ''Carol'' ''Carol@Shop.Test'' ''secret3'' ''staff'' ''Carol'' sample_world))
     = [(''u1'', ann), (''u2'', bob),
        (''u3'', \<lparr>username = ''carol'', email = ''carol@shop.test'', role = ''staff'',
                 displayName = ''Carol'', createdAt = 200, createdBy = ''u1''\<rparr>)] \<and>
   usernamesLower
     (snd (createUser ''Carol'' ''Carol@Shop.Test'' ''secret3'' ''staff'' ''Carol'' sample_world)) \<and>
   fst (initializeFirstAdmin ''Root'' ''Root@Shop.Test'' ''secret0'' ''Root'' sample_world_empty)
     = Inr (Success ''First admin created successfully'') \<and>
   users (snd (initializeFirstAdmin ''Root'' ''Root@Shop.Test'' ''secret0'' ''Root'' sample_world_empty))
     = [(''u3'', \<lparr>username = ''root'', email = ''root@shop.test'', role = ''admin'',
                 displayName = ''Root'', createdAt = 200, createdBy = ''system''\<rparr>)]"
proof -
  have lower: "toLowerCase ''ANN'' = ''ann''" "toLowerCase ''ann'' = ''ann''"
    "toLowerCase ''Bob'' = ''bob''" "toLowerCase ''bob'' = ''bob''"
    "toLowerCase ''Carol'' = ''carol''" "toLowerCase ''Root'' = ''root''"
    "toLowerCase ''Carol@Shop.Test'' = ''carol@shop.test''"
    "toLowerCase ''Root@Shop.Test'' = ''root@shop.test''"
    "toLowerCase [CHR 0xC9, CHR ''V'', CHR ''A''] = [CHR 0xE9, CHR ''v'', CHR ''a'']"
    "toLowerCase [CHR 0xC9, CHR ''v'', CHR ''a''] = [CHR 0xE9, CHR ''v'', CHR ''a'']"
    "toLowerCase [CHR 0xE9, CHR ''v'', CHR ''a''] = [CHR 0xE9, CHR ''v'', CHR ''a'']"
    by (simp_all add: toLowerCase_def lowerChar_def upperLetters_def lowerLetters_def)
  have eva: "users sample_world_eva = [(''u1'', ann), (''u2'', bob), (''u5'', eva)]"
    "nextFault sample_world_eva = None"
    by (simp_all add: sample_world_eva_def nextFault_def)
  have empty: "users sample_world_empty = []" "accounts sample_world_empty = []"
    "faults sample_world_empty = []" "now sample_world_empty = 200"
    "shd (uid_supply sample_world_empty) = ''u3''"
    by (simp_all add: sample_world_empty_def sample_world_def)
  have sample: "nextFault sample_world = None" "noFaults 4 sample_world"
    "noFaults 3 sample_world_empty" "shd (uid_supply sample_world) = ''u3''"
    by (simp_all add: nextFault_def noFaults_def empty sample_world_def)
  have inv: "usernamesLower sample_world_eva"
    "\<not> usernamesLower (sample_world\<lparr>users := [(''u5'', eva\<lparr>username := [CHR 0xC9, CHR ''v'', CHR ''a'']\<rparr>)]\<rparr>)"
    "usernamesLower sample_world"
    by (simp_all add: usernamesLower_def eva ann_def bob_def eva_def lower)
  have login: "\<exists>su. fst (loginWithUsername ''ANN'' ''secret1'' sample_world) = Inr (Success su)"
    by (simp add: loginWithUsername_alt loginAttempt_run Let_def nextFault_def lower ann_def bob_def)
  show ?thesis
    using lower(1,2) inv login sample eva
      usernames_lower_case [of "''ANN''" "''ann''" "''secret1''" sample_world]
      usernames_lower_case [of "''Bob''" "''Bob''" "''secret1''" sample_world]
      usernames_lower_case [of "[CHR 0xC9, CHR ''V'', CHR ''A'']" "[CHR 0xC9, CHR ''V'', CHR ''A'']"
        "''secret5''" sample_world_eva]
      usernames_lower_case [of "''Carol''" "''Carol''" "''secret3''" sample_world
        "''Carol@Shop.Test''" "''staff''" "''Carol''" "''u1''" ann]
      usernames_lower_case [of "''Root''" "''Root''" "''secret0''" sample_world_empty
        "''Root@Shop.Test''" "''staff''" "''Root''"]
    by (simp add: lower empty ann_def bob_def eva_def)
qed

end
